theory Spec2Isabelle
  imports Complex_Main "HOL-Library.Word"
begin

section \<open>Text and bytes\<close>

text \<open>
  A JavaScript string is a sequence of 16-bit code units; a Buffer is a sequence of bytes.
  What Node's HTTP parser hands over (header values, the request target) is Latin-1 text,
  one character per byte, which is exactly HOL's \<open>string\<close>. \<open>lit\<close> embeds such text,
  and the string literals of the source, into JavaScript strings.
\<close>

type_synonym byte = "8 word"
type_synonym jsstring = "16 word list"

definition unit_of_char :: "char \<Rightarrow> 16 word" where
  "unit_of_char c = of_nat (of_char c)"

definition lit :: "string \<Rightarrow> jsstring" where
  "lit s = map unit_of_char s"

text \<open>
  \<open>String.prototype.toLowerCase\<close> and \<open>toUpperCase\<close> on Latin-1 text. Lower-casing
  stays inside Latin-1. Upper-casing does not: the micro sign becomes U+039C, the sharp s
  becomes two letters and y with diaeresis becomes U+0178, so the result is a JavaScript
  string.
\<close>

definition lower_char :: "char \<Rightarrow> char" where
  "lower_char c = (let n = (of_char c :: nat) in
     if (65 \<le> n \<and> n \<le> 90) \<or> (192 \<le> n \<and> n \<le> 222 \<and> n \<noteq> 215)
     then char_of (n + 32) else c)"

definition toLowerCase :: "string \<Rightarrow> string" where
  "toLowerCase s = map lower_char s"

definition upper_char :: "char \<Rightarrow> jsstring" where
  "upper_char c = (let n = (of_char c :: nat) in
     if (97 \<le> n \<and> n \<le> 122) \<or> (224 \<le> n \<and> n \<le> 254 \<and> n \<noteq> 247)
     then [of_nat (n - 32)]
     else if n = 181 then [0x39C]
     else if n = 223 then [0x53, 0x53]
     else if n = 255 then [0x178]
     else [of_nat n])"

definition toUpperCase :: "string \<Rightarrow> jsstring" where
  "toUpperCase s = concat (map upper_char s)"

text \<open>\<open>String(n)\<close> for a non-negative integer \<open>n\<close>: its decimal digits.\<close>

fun decimal :: "nat \<Rightarrow> string" where
  "decimal n = (if n < 10 then [''0123456789'' ! n]
                else decimal (n div 10) @ [''0123456789'' ! (n mod 10)])"

text \<open>\<open>s.split(c)\<close> for a one-character separator: never the empty array.\<close>

fun split :: "'a \<Rightarrow> 'a list \<Rightarrow> 'a list list" where
  "split c [] = [[]]"
| "split c (x # xs) =
     (if x = c then [] # split c xs
      else (case split c xs of [] \<Rightarrow> [[x]] | p # ps \<Rightarrow> (x # p) # ps))"

text \<open>\<open>a[i]\<close> on an array: \<open>undefined\<close> (here \<open>None\<close>) out of range.\<close>

definition at_index :: "'a list \<Rightarrow> nat \<Rightarrow> 'a option" where
  "at_index xs i = (if i < length xs then Some (xs ! i) else None)"

section \<open>JavaScript values\<close>

text \<open>
  The request body, the options and the query map are typed \<open>unknown\<close> in the source, so
  the model carries JavaScript values. An object has a kind (ordinary, callable, promise),
  its own data properties in insertion order, and a prototype, which is another object or
  \<open>Null\<close>. A callable is modelled by what it does when called with one string, which is
  the only way the source calls one. Accessor properties, proxies and frozen objects are
  outside the model. A thrown value is an \<open>Error\<close> instance, with the number found under
  its \<open>status\<close> or \<open>statusCode\<close> property (if any) and its message, or some other value,
  represented by what \<open>String(value)\<close> gives. These are the properties of an error the
  source and http-errors read; an error that carries more (an \<open>extensions\<close> object, which
  graphql would copy into the formatted error) is outside the model.
\<close>

datatype jsnum = NaN | Infinity bool | Finite rat

datatype thrown = Error "nat option" jsstring | NonError jsstring

datatype jsval =
    Undefined
  | Null
  | Boolean bool
  | Number jsnum
  | String jsstring
  | Object kind "(jsstring \<times> jsval) list" jsval
and kind = Ordinary | Callable "jsstring \<Rightarrow> completion" | PromiseOf completion
and completion = Return jsval | Throw thrown

text \<open>The type guards of \<open>typeguards.ts\<close>.\<close>

fun isFunction :: "jsval \<Rightarrow> bool" where
  "isFunction (Object (Callable f) ps proto) = True"
| "isFunction v = False"

fun isObject :: "jsval \<Rightarrow> bool" where
  "isObject (Object (Callable f) ps proto) = False"
| "isObject (Object k ps proto) = True"
| "isObject v = False"

fun isString :: "jsval \<Rightarrow> bool" where
  "isString (String s) = True"
| "isString v = False"

fun nonNull :: "jsval \<Rightarrow> bool" where
  "nonNull Undefined = False"
| "nonNull Null = False"
| "nonNull v = True"

text \<open>\<open>Boolean(v)\<close>.\<close>

fun toBoolean :: "jsval \<Rightarrow> bool" where
  "toBoolean Undefined = False"
| "toBoolean Null = False"
| "toBoolean (Boolean b) = b"
| "toBoolean (Number n) = (n \<noteq> NaN \<and> n \<noteq> Finite 0)"
| "toBoolean (String s) = (s \<noteq> [])"
| "toBoolean (Object k ps proto) = True"

text \<open>
  Property access. \<open>hasOwnProperty\<close> looks at the object's own properties only; \<open>o[k]\<close>
  and \<open>k in o\<close> walk the prototype chain, which ends at \<open>Null\<close>. An assignment
  \<open>o[k] = v\<close> writes an own property, in place when the object has one of that name.
  The source applies them to objects only: to the body under \<open>isObject\<close>, to the options
  and the query map after the assertions of \<open>parseOptions\<close>.
\<close>

fun hasOwnProperty :: "jsval \<Rightarrow> jsstring \<Rightarrow> bool" where
  "hasOwnProperty (Object k ps proto) key = (key \<in> set (map fst ps))"
| "hasOwnProperty v key = False"

fun get_property :: "jsval \<Rightarrow> jsstring \<Rightarrow> jsval" where
  "get_property (Object k ps proto) key =
     (case map_of ps key of Some v \<Rightarrow> v | None \<Rightarrow> get_property proto key)"
| "get_property v key = Undefined"

fun has_property :: "jsval \<Rightarrow> jsstring \<Rightarrow> bool" where
  "has_property (Object k ps proto) key = (key \<in> set (map fst ps) \<or> has_property proto key)"
| "has_property v key = False"

fun put_own :: "(jsstring \<times> jsval) list \<Rightarrow> jsstring \<Rightarrow> jsval \<Rightarrow> (jsstring \<times> jsval) list" where
  "put_own [] key v = [(key, v)]"
| "put_own ((k, w) # ps) key v = (if k = key then (k, v) # ps else (k, w) # put_own ps key v)"

fun set_property :: "jsval \<Rightarrow> jsstring \<Rightarrow> jsval \<Rightarrow> jsval" where
  "set_property (Object k ps proto) key v = Object k (put_own ps key v) proto"
| "set_property w key v = w"

text \<open>
  \<open>await v\<close>: a promise gives what it was fulfilled with or throws what it was rejected
  with; any other value gives itself.
\<close>

primrec await :: "jsval \<Rightarrow> thrown + jsval"
  and await_kind :: "kind \<Rightarrow> (thrown + jsval) option"
  and await_completion :: "completion \<Rightarrow> thrown + jsval" where
  "await Undefined = Inr Undefined"
| "await Null = Inr Null"
| "await (Boolean b) = Inr (Boolean b)"
| "await (Number n) = Inr (Number n)"
| "await (String s) = Inr (String s)"
| "await (Object k ps proto) =
     (case await_kind k of Some r \<Rightarrow> r | None \<Rightarrow> Inr (Object k ps proto))"
| "await_kind Ordinary = None"
| "await_kind (Callable f) = None"
| "await_kind (PromiseOf c) = Some (await_completion c)"
| "await_completion (Return v) = await v"
| "await_completion (Throw t) = Inl t"

text \<open>
  \<open>Object.prototype\<close>, for the examples: the methods every ordinary object inherits
  (the accessor \<open>__proto__\<close> is left out). None of the inherited values is a string. The
  source never calls them, so what they do when called is left trivial.
\<close>

definition native :: jsval where
  "native = Object (Callable (\<lambda>s. Return Undefined)) [] Null"

definition ObjectPrototype :: jsval where
  "ObjectPrototype = Object Ordinary
     (map (\<lambda>n. (lit n, native))
        [''constructor'', ''__defineGetter__'', ''__defineSetter__'', ''hasOwnProperty'',
         ''__lookupGetter__'', ''__lookupSetter__'', ''isPrototypeOf'',
         ''propertyIsEnumerable'', ''toString'', ''valueOf'', ''toLocaleString'']) Null"

text \<open>An object literal \<open>{ k: v, ... }\<close>.\<close>

definition object_literal :: "(jsstring \<times> jsval) list \<Rightarrow> jsval" where
  "object_literal ps = Object Ordinary ps ObjectPrototype"

section \<open>The platform\<close>

text \<open>
  The request stream delivers bytes and then ends or fails. \<open>Stream bs e\<close> is a stream
  that delivers \<open>bs\<close> in all and then ends as \<open>e\<close> says.
\<close>

datatype stream_end = Ended | Errored thrown

datatype byte_stream = Stream "byte list" stream_end

text \<open>The result of \<open>contentType.parse\<close>: the media type in lower case and its parameters.\<close>

record media_type =
  mtype :: string
  parameters :: "string \<rightharpoonup> string"

text \<open>
  Node's built-ins and the npm packages the source calls are not part of the repository.
  The functions whose results the source only passes on are parameters of the model, so
  every theorem below holds whatever they compute:
  \<^item> \<open>zlib_inflate\<close>, \<open>zlib_gunzip\<close>: the request stream piped through
    \<open>createInflate()\<close>, \<open>createGunzip()\<close>;
  \<^item> \<open>decoder_write\<close>, \<open>decoder_end\<close>: the text a \<open>StringDecoder\<close> for the given
    encoding has emitted once these bytes are written, and what it emits at the end;
  \<^item> \<open>buffer_toString\<close>: \<open>buffer.toString(encoding)\<close>;
  \<^item> \<open>JSON_parse\<close>: \<open>JSON.parse\<close>, \<open>Inl\<close> the message of its SyntaxError;
  \<^item> \<open>querystring_parse\<close>: \<open>querystring.parse\<close>;
  \<^item> \<open>contentType_parse\<close>: \<open>contentType.parse\<close> on the header's value, \<open>Inl\<close>
    the message of its TypeError;
  \<^item> \<open>urlencoded_parse\<close>: the name-value pairs of \<open>new URLSearchParams(s)\<close>;
  \<^item> \<open>statuses\<close>: the status codes the \<open>statuses\<close> package knows.
\<close>

record platform =
  zlib_inflate :: "byte_stream \<Rightarrow> byte_stream"
  zlib_gunzip :: "byte_stream \<Rightarrow> byte_stream"
  decoder_write :: "string \<Rightarrow> byte list \<Rightarrow> jsstring"
  decoder_end :: "string \<Rightarrow> byte list \<Rightarrow> jsstring"
  buffer_toString :: "string \<Rightarrow> byte list \<Rightarrow> jsstring"
  JSON_parse :: "jsstring \<Rightarrow> jsstring + jsval"
  querystring_parse :: "jsstring \<Rightarrow> jsval"
  contentType_parse :: "string \<Rightarrow> jsstring + media_type"
  urlencoded_parse :: "string \<Rightarrow> (jsstring \<times> jsstring) list"
  statuses :: "nat \<Rightarrow> bool"

subsection \<open>get-stream 6.0.1\<close>

text \<open>
  \<open>getStream(stream, {encoding, maxBuffer})\<close> sets the encoding on a pass-through stream
  and adds \<open>chunk.length\<close> of every chunk it emits, which are strings: it counts UTF-16
  code units. \<open>getStream.buffer(stream, {maxBuffer})\<close> collects Buffers and counts
  bytes. Both reject with a \<open>MaxBufferError\<close> as soon as the count is above
  \<open>maxBuffer\<close>, and with the stream's error when the stream fails first. The count only
  grows, so it has been above \<open>maxBuffer\<close> at some chunk exactly when it is above it for
  all that was delivered. The package's documentation says the same: \<open>maxBuffer\<close> is the
  maximum length of the returned string, and for \<open>getStream.buffer\<close> it refers to byte
  length rather than string length.
\<close>

datatype get_stream_error = MaxBufferError | StreamError thrown

fun getStream_buffer :: "nat \<Rightarrow> byte_stream \<Rightarrow> get_stream_error + byte list" where
  "getStream_buffer maxBuffer (Stream bs e) =
     (if length bs > maxBuffer then Inl MaxBufferError
      else (case e of Errored t \<Rightarrow> Inl (StreamError t) | Ended \<Rightarrow> Inr bs))"

fun getStream :: "platform \<Rightarrow> string \<Rightarrow> nat \<Rightarrow> byte_stream \<Rightarrow> get_stream_error + jsstring" where
  "getStream P encoding maxBuffer (Stream bs e) =
     (if length (decoder_write P encoding bs) > maxBuffer then Inl MaxBufferError
      else (case e of
              Errored t \<Rightarrow> Inl (StreamError t)
            | Ended \<Rightarrow>
                (let text = decoder_write P encoding bs @ decoder_end P encoding bs
                 in if length text > maxBuffer then Inl MaxBufferError else Inr text)))"

subsection \<open>http-errors 1.8.0\<close>

text \<open>
  \<open>httpError(status, message)\<close> makes an Error with that status and message.
  \<open>httpError(status, e)\<close> on an Error \<open>e\<close> returns \<open>e\<close> itself, its message
  untouched, with the status \<open>e.status || e.statusCode || status\<close>; on a string it makes
  a new Error with that message and \<open>status\<close>. Either way a status that is neither a
  known code nor in 400..599 is replaced by 500. \<open>wrapped_statusCode P status x\<close> and
  \<open>error_message x\<close> are the \<open>statusCode\<close> and the \<open>message\<close> of
  \<open>httpError(status, x instanceof Error ? x : String(x))\<close>.
\<close>

definition httpError :: "nat \<Rightarrow> jsstring \<Rightarrow> thrown" where
  "httpError status message = Error (Some status) message"

fun error_message :: "thrown \<Rightarrow> jsstring" where
  "error_message (Error st m) = m"
| "error_message (NonError s) = s"

definition checked_status :: "platform \<Rightarrow> nat \<Rightarrow> nat" where
  "checked_status P status =
     (if \<not> statuses P status \<and> (status < 400 \<or> status \<ge> 600) then 500 else status)"

fun wrapped_statusCode :: "platform \<Rightarrow> nat \<Rightarrow> thrown \<Rightarrow> nat" where
  "wrapped_statusCode P status (Error st m) =
     checked_status P (case st of None \<Rightarrow> status | Some s \<Rightarrow> if s = 0 then status else s)"
| "wrapped_statusCode P status (NonError s) = checked_status P status"

section \<open>Requests and responses\<close>

text \<open>
  The request as the source uses it: the request target, the header map (keys in lower
  case), the \<open>body\<close> slot (\<open>Undefined\<close> when nothing has set it), the byte stream, and
  whether anything has read from the stream. The response: its status code, its headers
  (by lower-cased name, as \<open>setHeader\<close> keeps them) and what \<open>end\<close> was called with.
\<close>

record request =
  url :: string
  headers :: "string \<rightharpoonup> string"
  body :: jsval
  stream :: byte_stream
  consumed :: bool

record response =
  statusCode :: nat
  res_headers :: "string \<rightharpoonup> jsstring"
  ended :: "byte list option"

text \<open>\<open>constants.ts\<close>.\<close>

definition CONTENT_TYPE_FORM_URL_ENCODED :: string where
  "CONTENT_TYPE_FORM_URL_ENCODED = ''application/x-www-form-urlencoded''"

definition CONTENT_TYPE_JSON :: string where
  "CONTENT_TYPE_JSON = ''application/json''"

definition HTTP_STATUS_BAD_REQUEST :: nat where
  "HTTP_STATUS_BAD_REQUEST = 400"

definition HTTP_STATUS_PAYLOAD_TOO_LARGE :: nat where
  "HTTP_STATUS_PAYLOAD_TOO_LARGE = 413"

definition HTTP_STATUS_UNSUPPORTED_MEDIA_TYPE :: nat where
  "HTTP_STATUS_UNSUPPORTED_MEDIA_TYPE = 415"

definition HTTP_STATUS_INTERNAL_SERVER_ERROR :: nat where
  "HTTP_STATUS_INTERNAL_SERVER_ERROR = 500"

definition UNIT_KIB :: nat where
  "UNIT_KIB = 1024"

section \<open>Body materialization\<close>

subsection \<open>\<open>parseRequestBodyIfNecessary.ts\<close>\<close>

text \<open>
  Every function that can read the request returns, next to its result or the value it
  throws, the request as it leaves it.
\<close>

text \<open>The test \<open>/^[ \t\n\r]*{/\<close>.\<close>

definition starts_with_brace :: "jsstring \<Rightarrow> bool" where
  "starts_with_brace json =
     (case dropWhile (\<lambda>u. u \<in> set [0x20, 0x09, 0x0A, 0x0D]) json of
        [] \<Rightarrow> False
      | u # us \<Rightarrow> u = 0x7B)"

definition parseJsonObject :: "platform \<Rightarrow> jsstring \<Rightarrow> thrown + jsval" where
  "parseJsonObject P json =
     (if \<not> starts_with_brace json then Inl (Error None (lit ''Not a JSON object.''))
      else (case JSON_parse P json of
              Inl m \<Rightarrow> Inl (Error None m)
            | Inr v \<Rightarrow> Inr v))"

definition isCharsetSupported :: "string \<Rightarrow> bool" where
  "isCharsetSupported charset =
     (charset = ''utf8'' \<or> charset = ''utf-8'' \<or> charset = ''utf16le'')"

definition getStreamFromRequest :: "platform \<Rightarrow> request \<Rightarrow> string \<Rightarrow> thrown + byte_stream" where
  \<open>getStreamFromRequest P req encoding =
     (if encoding = ''deflate'' then Inr (zlib_inflate P (stream req))
      else if encoding = ''gzip'' then Inr (zlib_gunzip P (stream req))
      else if encoding = ''identity'' then Inr (stream req)
      else Inl (httpError HTTP_STATUS_UNSUPPORTED_MEDIA_TYPE
                  (lit ''Unsupported Content-Encoding: "'' @ lit encoding @ lit ''".'')))\<close>

definition MAX_BUFFER_SIZE_KIB :: nat where
  "MAX_BUFFER_SIZE_KIB = 100"

text \<open>
  The file's own \<open>readRawBody\<close>, here \<open>readRawBody_text\<close> since \<open>readRawBody.ts\<close>
  has a function of that name too. It reads the stream as text:
  \<open>getStream(stream, { encoding: charset, maxBuffer })\<close>.
\<close>

definition readRawBody_text ::
  "platform \<Rightarrow> request \<Rightarrow> media_type \<Rightarrow> (thrown + jsstring) \<times> request" where
  \<open>readRawBody_text P req contentTypeInfo =
     (let charset = (case parameters contentTypeInfo ''charset'' of
                       Some c \<Rightarrow> toLowerCase c
                     | None \<Rightarrow> ''utf-8'')
      in if \<not> isCharsetSupported charset
         then (Inl (httpError HTTP_STATUS_UNSUPPORTED_MEDIA_TYPE
                      (lit ''Unsupported charset "'' @ toUpperCase charset @ lit ''".'')), req)
         else
           let encoding = (case headers req ''content-encoding'' of
                             Some e \<Rightarrow> toLowerCase e
                           | None \<Rightarrow> ''identity'');
               maxBuffer = MAX_BUFFER_SIZE_KIB * UNIT_KIB
           in (case getStreamFromRequest P req encoding of
                 Inl e \<Rightarrow> (Inl e, req)
               | Inr decompressed \<Rightarrow>
                   (case getStream P charset maxBuffer decompressed of
                      Inr rawBody \<Rightarrow> (Inr rawBody, req\<lparr>consumed := True\<rparr>)
                    | Inl MaxBufferError \<Rightarrow>
                        (Inl (httpError HTTP_STATUS_PAYLOAD_TOO_LARGE
                                (lit ''Request body too large.'')),
                         req\<lparr>consumed := True\<rparr>)
                    | Inl (StreamError t) \<Rightarrow>
                        (Inl (httpError HTTP_STATUS_BAD_REQUEST
                                (lit ''Invalid request body: '' @ error_message t @ lit ''.'')),
                         req\<lparr>consumed := True\<rparr>))))\<close>

definition parseRequestBodyIfNecessary ::
  "platform \<Rightarrow> request \<Rightarrow> (thrown + unit) \<times> request" where
  "parseRequestBodyIfNecessary P req =
     (if nonNull (body req) then (Inr (), req)
      else (case headers req ''content-type'' of
              None \<Rightarrow> (Inr (), req)
            | Some header \<Rightarrow>
                (case contentType_parse P header of
                   Inl m \<Rightarrow> (Inl (Error None m), req)
                 | Inr contentTypeInfo \<Rightarrow>
                     if mtype contentTypeInfo = CONTENT_TYPE_JSON then
                       (case readRawBody_text P req contentTypeInfo of
                          (Inl e, req') \<Rightarrow> (Inl e, req')
                        | (Inr rawBody, req') \<Rightarrow>
                            (case parseJsonObject P rawBody of
                               Inr v \<Rightarrow> (Inr (), req'\<lparr>body := v\<rparr>)
                             | Inl e \<Rightarrow>
                                 (Inl (httpError HTTP_STATUS_BAD_REQUEST
                                         (lit ''Request body is not a valid JSON object.'')),
                                  req')))
                     else if mtype contentTypeInfo = CONTENT_TYPE_FORM_URL_ENCODED then
                       (case readRawBody_text P req contentTypeInfo of
                          (Inl e, req') \<Rightarrow> (Inl e, req')
                        | (Inr rawBody, req') \<Rightarrow>
                            (Inr (), req'\<lparr>body := querystring_parse P rawBody\<rparr>))
                     else (Inr (), req))))"

subsection \<open>\<open>readRawBody.ts\<close>\<close>

text \<open>
  The later \<open>readRawBody\<close>, with the ceiling as a parameter, which reads the stream as
  bytes and decodes afterwards: \<open>getStream.buffer(stream, { maxBuffer: maxSize })\<close> and
  \<open>bodyBuffer.toString(charset)\<close>.
\<close>

definition getDecompressedStream :: "platform \<Rightarrow> request \<Rightarrow> string \<Rightarrow> thrown + byte_stream" where
  \<open>getDecompressedStream P req encoding =
     (if encoding = ''deflate'' then Inr (zlib_inflate P (stream req))
      else if encoding = ''gzip'' then Inr (zlib_gunzip P (stream req))
      else if encoding = ''identity'' then Inr (stream req)
      else Inl (httpError HTTP_STATUS_UNSUPPORTED_MEDIA_TYPE
                  (lit ''Unsupported Content-Encoding: "'' @ lit encoding @ lit ''".'')))\<close>

definition readRawBody ::
  "platform \<Rightarrow> media_type \<Rightarrow> nat \<Rightarrow> request \<Rightarrow> (thrown + jsstring) \<times> request" where
  \<open>readRawBody P contentTypeInfo maxSize req =
     (let charset = (case parameters contentTypeInfo ''charset'' of
                       Some c \<Rightarrow> toLowerCase c
                     | None \<Rightarrow> ''utf-8'')
      in if \<not> isCharsetSupported charset
         then (Inl (httpError HTTP_STATUS_UNSUPPORTED_MEDIA_TYPE
                      (lit ''Unsupported charset "'' @ toUpperCase charset @ lit ''".'')), req)
         else
           let encoding = (case headers req ''content-encoding'' of
                             Some e \<Rightarrow> toLowerCase e
                           | None \<Rightarrow> ''identity'')
           in (case getDecompressedStream P req encoding of
                 Inl e \<Rightarrow> (Inl e, req)
               | Inr decompressed \<Rightarrow>
                   (case getStream_buffer maxSize decompressed of
                      Inr bodyBuffer \<Rightarrow>
                        (Inr (buffer_toString P charset bodyBuffer), req\<lparr>consumed := True\<rparr>)
                    | Inl MaxBufferError \<Rightarrow>
                        (Inl (httpError HTTP_STATUS_PAYLOAD_TOO_LARGE
                                (lit ''Request body too large.'')),
                         req\<lparr>consumed := True\<rparr>)
                    | Inl (StreamError t) \<Rightarrow>
                        (Inl (httpError HTTP_STATUS_BAD_REQUEST
                                (lit ''Invalid request body: '' @ error_message t @ lit ''.'')),
                         req\<lparr>consumed := True\<rparr>))))\<close>

section \<open>Query resolution: \<open>getPersistedQuery.ts\<close>\<close>

text \<open>
  \<open>new URLSearchParams(init)\<close> is empty when \<open>init\<close> is \<open>undefined\<close>; \<open>has\<close> and \<open>get\<close>
  look a name up, \<open>get\<close> giving the first value or \<open>null\<close>.
\<close>

definition URLSearchParams :: "platform \<Rightarrow> string option \<Rightarrow> (jsstring \<times> jsstring) list" where
  "URLSearchParams P init = (case init of None \<Rightarrow> [] | Some s \<Rightarrow> urlencoded_parse P s)"

definition searchParams_has :: "(jsstring \<times> jsstring) list \<Rightarrow> jsstring \<Rightarrow> bool" where
  "searchParams_has sp name = (name \<in> set (map fst sp))"

definition searchParams_get :: "(jsstring \<times> jsstring) list \<Rightarrow> jsstring \<Rightarrow> jsstring option" where
  "searchParams_get sp name = map_of sp name"

text \<open>The string a value is when \<open>isString\<close> holds of it.\<close>

fun string_of :: "jsval \<Rightarrow> jsstring option" where
  "string_of (String s) = Some s"
| "string_of v = None"

text \<open>\<open>f(s)\<close>: calling what is not callable throws a TypeError.\<close>

fun call :: "jsval \<Rightarrow> jsstring \<Rightarrow> completion" where
  "call (Object (Callable f) ps proto) s = f s"
| "call v s = Throw (Error None (lit ''queryMap is not a function''))"

text \<open>
  The function \<open>getPersistedQuery\<close>. Its local constants \<open>searchParams\<close> and
  \<open>queryId\<close> and its variable \<open>persistedQuery\<close> are definitions of their own, so that
  statements about the function can name them.
\<close>

definition searchParams_of :: "platform \<Rightarrow> request \<Rightarrow> (jsstring \<times> jsstring) list" where
  "searchParams_of P req = URLSearchParams P (at_index (split CHR ''?'' (url req)) 1)"

definition queryId_of :: "platform \<Rightarrow> jsstring \<Rightarrow> request \<Rightarrow> jsval" where
  "queryId_of P queryIdKey req =
     (case searchParams_get (searchParams_of P req) queryIdKey of
        Some s \<Rightarrow> String s
      | None \<Rightarrow> if isObject (body req) then get_property (body req) queryIdKey else Null)"

definition persistedQuery_of :: "jsval \<Rightarrow> jsstring \<Rightarrow> thrown + jsval" where
  "persistedQuery_of queryMap queryId =
     (if isFunction queryMap then await_completion (call queryMap queryId)
      else if hasOwnProperty queryMap queryId then Inr (get_property queryMap queryId)
      else Inr Null)"

definition getPersistedQuery ::
  "platform \<Rightarrow> jsstring \<Rightarrow> jsval \<Rightarrow> request \<Rightarrow> bool \<Rightarrow> thrown + jsstring option" where
  \<open>getPersistedQuery P queryIdKey queryMap req strict =
     (let searchParams = searchParams_of P req
      in if strict \<and> searchParams_has searchParams (lit ''query'')
         then Inl (httpError HTTP_STATUS_BAD_REQUEST
                     (lit ''Search params have "query" but only persisted queries are allowed.''))
         else if strict \<and> isObject (body req) \<and> has_property (body req) (lit ''query'')
         then Inl (httpError HTTP_STATUS_BAD_REQUEST
                     (lit ''Request body has "query" but only persisted queries are allowed.''))
         else
           (case string_of (queryId_of P queryIdKey req) of
              None \<Rightarrow>
                if strict
                then Inl (httpError HTTP_STATUS_BAD_REQUEST
                            (lit ''Request must provide a query ID under "'' @ queryIdKey
                             @ lit ''" key either in search params or request body.''))
                else Inr None
            | Some queryId \<Rightarrow>
                (case persistedQuery_of queryMap queryId of
                   Inl e \<Rightarrow> Inl e
                 | Inr persistedQuery \<Rightarrow>
                     (case string_of persistedQuery of
                        None \<Rightarrow>
                          Inl (httpError HTTP_STATUS_BAD_REQUEST
                                 (lit ''The provided query ID "'' @ queryId
                                  @ lit ''" did not match any persisted query.''))
                      | Some q \<Rightarrow> Inr (Some q)))))\<close>

section \<open>Options: \<open>assert.ts\<close>, \<open>parseOptions.ts\<close>\<close>

definition assert :: "bool \<Rightarrow> jsstring \<Rightarrow> thrown option" where
  "assert condition msg = (if \<not> condition then Some (Error None msg) else None)"

record parsed_options =
  queryIdKey :: jsstring
  queryMap :: jsval
  strict :: bool

definition parseOptions :: "jsval \<Rightarrow> thrown + parsed_options" where
  "parseOptions promiseOrOptions =
     (case await promiseOrOptions of
        Inl e \<Rightarrow> Inl e
      | Inr options \<Rightarrow>
          (case assert (isObject options)
                  (lit ''The options passed to persistedQueries must be an object or a promise that resolves with an object.'') of
             Some e \<Rightarrow> Inl e
           | None \<Rightarrow>
               (case await (get_property options (lit ''queryMap'')) of
                  Inl e \<Rightarrow> Inl e
                | Inr qm \<Rightarrow>
                    (case assert (isObject qm \<or> isFunction qm)
                            (lit ''options.queryMap must be an object, a function, or a promise that resolves with an object or function.'') of
                       Some e \<Rightarrow> Inl e
                     | None \<Rightarrow>
                         Inr \<lparr>queryIdKey =
                                (case string_of (get_property options (lit ''queryIdKey'')) of
                                   Some s \<Rightarrow> s
                                 | None \<Rightarrow> lit ''queryId''),
                              queryMap = qm,
                              strict = toBoolean (get_property options (lit ''strict''))\<rparr>))))"

section \<open>The error envelope: \<open>sendJson.ts\<close>\<close>

text \<open>
  The payloads the source serialises are built from objects, arrays, strings and
  \<open>undefined\<close>. \<open>JSON.stringify\<close> leaves out a property whose value is \<open>undefined\<close>,
  writes \<open>null\<close> for such an array element, and gives \<open>undefined\<close> (here \<open>None\<close>) for
  \<open>undefined\<close> itself.
\<close>

datatype json = JUndefined | JString jsstring | JArray "json list" | JObject "(string \<times> json) list"

text \<open>
  How \<open>JSON.stringify\<close> writes a string (ECMAScript 2019, Node 12 and later): between
  double quotes, with the short escapes for backspace, tab, line feed, form feed, carriage
  return, double quote and backslash, and an escape of backslash, u and four lower-case
  hexadecimal digits for every other code unit below U+0020 and for every surrogate that
  is not part of a pair.
\<close>

definition is_lead :: "16 word \<Rightarrow> bool" where
  "is_lead u = (0xD800 \<le> u \<and> u \<le> 0xDBFF)"

definition is_trail :: "16 word \<Rightarrow> bool" where
  "is_trail u = (0xDC00 \<le> u \<and> u \<le> 0xDFFF)"

definition unicode_escape :: "16 word \<Rightarrow> jsstring" where
  "unicode_escape u =
     [0x5C, 0x75] @ lit (map (\<lambda>d. ''0123456789abcdef'' ! d)
        [unat u div 4096, unat u div 256 mod 16, unat u div 16 mod 16, unat u mod 16])"

definition escape_unit :: "16 word \<Rightarrow> jsstring" where
  "escape_unit u =
     (if u = 0x08 then [0x5C, 0x62]
      else if u = 0x09 then [0x5C, 0x74]
      else if u = 0x0A then [0x5C, 0x6E]
      else if u = 0x0C then [0x5C, 0x66]
      else if u = 0x0D then [0x5C, 0x72]
      else if u = 0x22 then [0x5C, 0x22]
      else if u = 0x5C then [0x5C, 0x5C]
      else if u < 0x20 then unicode_escape u
      else [u])"

fun quote_units :: "jsstring \<Rightarrow> jsstring" where
  "quote_units [] = []"
| "quote_units [u] =
     (if is_lead u \<or> is_trail u then unicode_escape u else escape_unit u)"
| "quote_units (u # v # us) =
     (if is_lead u \<and> is_trail v then u # v # quote_units us
      else if is_lead u \<or> is_trail u then unicode_escape u @ quote_units (v # us)
      else escape_unit u @ quote_units (v # us))"

definition JSON_quote :: "jsstring \<Rightarrow> jsstring" where
  "JSON_quote s = [0x22] @ quote_units s @ [0x22]"

fun join :: "jsstring \<Rightarrow> jsstring list \<Rightarrow> jsstring" where
  "join sep [] = []"
| "join sep [x] = x"
| "join sep (x # y # ys) = x @ sep @ join sep (y # ys)"

fun JSON_stringify :: "json \<Rightarrow> jsstring option"
  and stringify_elements :: "json list \<Rightarrow> jsstring list"
  and stringify_members :: "(string \<times> json) list \<Rightarrow> jsstring list" where
  "JSON_stringify JUndefined = None"
| "JSON_stringify (JString s) = Some (JSON_quote s)"
| "JSON_stringify (JArray xs) =
     Some (lit ''['' @ join (lit '','') (stringify_elements xs) @ lit '']'')"
| "JSON_stringify (JObject ms) =
     Some (lit ''{'' @ join (lit '','') (stringify_members ms) @ lit ''}'')"
| "stringify_elements [] = []"
| "stringify_elements (x # xs) =
     (case JSON_stringify x of None \<Rightarrow> lit ''null'' | Some t \<Rightarrow> t) # stringify_elements xs"
| "stringify_members [] = []"
| "stringify_members ((k, v) # ms) =
     (case JSON_stringify v of
        None \<Rightarrow> stringify_members ms
      | Some t \<Rightarrow> (JSON_quote (lit k) @ lit '':'' @ t) # stringify_members ms)"

text \<open>
  \<open>Buffer.from(s, 'utf8')\<close>: the UTF-8 encoding of the string, a surrogate pair as one
  code point and a surrogate outside a pair as U+FFFD.
\<close>

fun utf8_encode :: "jsstring \<Rightarrow> byte list" where
  "utf8_encode [] = []"
| "utf8_encode [u] =
     (if unat u < 0x80 then [of_nat (unat u)]
      else if unat u < 0x800 then [of_nat (0xC0 + unat u div 64), of_nat (0x80 + unat u mod 64)]
      else if is_lead u \<or> is_trail u then [0xEF, 0xBF, 0xBD]
      else [of_nat (0xE0 + unat u div 4096), of_nat (0x80 + unat u div 64 mod 64),
            of_nat (0x80 + unat u mod 64)])"
| "utf8_encode (u # v # us) =
     (if unat u < 0x80 then of_nat (unat u) # utf8_encode (v # us)
      else if unat u < 0x800
      then of_nat (0xC0 + unat u div 64) # of_nat (0x80 + unat u mod 64) # utf8_encode (v # us)
      else if is_lead u \<and> is_trail v
      then (let c = 0x10000 + (unat u - 0xD800) * 1024 + (unat v - 0xDC00)
            in of_nat (0xF0 + c div 262144) # of_nat (0x80 + c div 4096 mod 64)
               # of_nat (0x80 + c div 64 mod 64) # of_nat (0x80 + c mod 64) # utf8_encode us)
      else if is_lead u \<or> is_trail u then [0xEF, 0xBF, 0xBD] @ utf8_encode (v # us)
      else of_nat (0xE0 + unat u div 4096) # of_nat (0x80 + unat u div 64 mod 64)
           # of_nat (0x80 + unat u mod 64) # utf8_encode (v # us))"

definition setHeader :: "response \<Rightarrow> string \<Rightarrow> jsstring \<Rightarrow> response" where
  "setHeader res name v = res\<lparr>res_headers := (res_headers res)(toLowerCase name \<mapsto> v)\<rparr>"

text \<open>
  \<open>Buffer.from(undefined, 'utf8')\<close> throws, so \<open>sendJson\<close> throws when the payload
  serialises to \<open>undefined\<close>.
\<close>

definition sendJson :: "response \<Rightarrow> json \<Rightarrow> thrown + response" where
  "sendJson res payload =
     (case JSON_stringify payload of
        None \<Rightarrow> Inl (Error None (lit ''ERR_INVALID_ARG_TYPE''))
      | Some json \<Rightarrow>
          (let buffer = utf8_encode json;
               res1 = setHeader res ''Content-Type'' (lit CONTENT_TYPE_JSON @ lit ''; charset=utf-8'');
               res2 = setHeader res1 ''Content-Length'' (lit (decimal (length buffer)))
           in Inr (res2\<lparr>ended := Some buffer\<rparr>)))"

section \<open>The middleware: \<open>index.ts\<close>\<close>

text \<open>
  \<open>formatError(new GraphQLError(message, ..., error))\<close> of graphql 15 is the object
  \<open>{ message, locations, path }\<close>, the last two \<open>undefined\<close> for an error without nodes
  or path.
\<close>

definition formatError :: "jsstring \<Rightarrow> json" where
  "formatError message =
     JObject [(''message'', JString message), (''locations'', JUndefined), (''path'', JUndefined)]"

text \<open>
  What a request ends in: the continuation was called (\<open>Next\<close>), a response was sent and
  the continuation was not called (\<open>Responded\<close>), or the handler itself failed
  (\<open>Rejected\<close>). Each carries the request and the response as they are then. The
  continuation is opaque and is taken not to throw.
\<close>

datatype outcome =
    Next request response
  | Responded request response
  | Rejected thrown request response

text \<open>
  The \<open>catch\<close> block of the middleware, and before it the status code it sets:
  \<open>error.statusCode\<close>, where \<open>error\<close> is \<open>httpError\<close> of
  \<open>HTTP_STATUS_INTERNAL_SERVER_ERROR\<close> and what was caught.
\<close>

definition error_statusCode :: "platform \<Rightarrow> thrown \<Rightarrow> nat" where
  "error_statusCode P unknownError =
     wrapped_statusCode P HTTP_STATUS_INTERNAL_SERVER_ERROR unknownError"

definition handle_error :: "platform \<Rightarrow> thrown \<Rightarrow> request \<Rightarrow> response \<Rightarrow> outcome" where
  "handle_error P unknownError req res =
     (let res1 = res\<lparr>statusCode := error_statusCode P unknownError\<rparr>;
          result = JObject [(''data'', JUndefined),
                            (''errors'', JArray [formatError (error_message unknownError)])]
      in (case sendJson res1 result of
            Inr res2 \<Rightarrow> Responded req res2
          | Inl e \<Rightarrow> Rejected e req res1))"

text \<open>
  What the middleware leaves in the body slot once a persisted query is found:
  \<open>req.body.query = persistedQuery\<close> when the body is an object, and otherwise
  \<open>req.body = { query: persistedQuery }\<close>.
\<close>

definition inject_query :: "jsval \<Rightarrow> jsstring \<Rightarrow> jsval" where
  "inject_query b persistedQuery =
     (if isObject b then set_property b (lit ''query'') (String persistedQuery)
      else object_literal [(lit ''query'', String persistedQuery)])"

text \<open>
  \<open>persistedQueriesMiddleware\<close>, the function \<open>persistedQueries\<close> returns. Its closure
  holds \<open>parsedOptions\<close>, the promise made at construction, which the model represents by
  what it settles to.
\<close>

definition persistedQueriesMiddleware ::
  "platform \<Rightarrow> thrown + parsed_options \<Rightarrow> request \<Rightarrow> response \<Rightarrow> outcome" where
  "persistedQueriesMiddleware P parsedOptions req res =
     (case parsedOptions of
        Inl e \<Rightarrow> handle_error P e req res
      | Inr opts \<Rightarrow>
          (case parseRequestBodyIfNecessary P req of
             (Inl e, req1) \<Rightarrow> handle_error P e req1 res
           | (Inr u, req1) \<Rightarrow>
               (case getPersistedQuery P (queryIdKey opts) (queryMap opts) req1 (strict opts) of
                  Inl e \<Rightarrow> handle_error P e req1 res
                | Inr persistedQuery \<Rightarrow>
                    (case persistedQuery of
                       Some q \<Rightarrow> Next (req1\<lparr>body := inject_query (body req1) q\<rparr>) res
                     | None \<Rightarrow> Next req1 res))))"

text \<open>
  \<open>persistedQueries\<close>: the assertion on the options throws at once; otherwise
  \<open>parseOptions\<close> is started, a rejection of its promise is passed to \<open>console.error\<close>,
  and the middleware is returned. The model gives what the promise settles to and what
  this call passes to \<open>console.error\<close>.
\<close>

record middleware =
  parsedOptions :: "thrown + parsed_options"
  console_error :: "thrown list"

definition persistedQueries :: "jsval \<Rightarrow> thrown + middleware" where
  "persistedQueries options =
     (case assert (nonNull options)
             (lit ''You must provide options to the persistedQueries middleware.'') of
        Some e \<Rightarrow> Inl e
      | None \<Rightarrow>
          (let parsed = parseOptions options
           in Inr \<lparr>parsedOptions = parsed,
                   console_error = (case parsed of Inl e \<Rightarrow> [e] | Inr opts \<Rightarrow> [])\<rparr>))"

section \<open>The envelope the specification describes\<close>

text \<open>
  The specification's error body, \<open>{"errors":[{"message": <text>}]}\<close>, and the response
  it asks for a failure: the failure's status code, the JSON content type, the byte
  length of the UTF-8 payload as content length, and the payload.
\<close>

definition spec_error_envelope :: "jsstring \<Rightarrow> jsstring" where
  \<open>spec_error_envelope message =
     lit ''{"errors":[{"message":'' @ JSON_quote message @ lit ''}]}''\<close>

definition error_response :: "platform \<Rightarrow> thrown \<Rightarrow> response \<Rightarrow> response" where
  "error_response P e res =
     res\<lparr>statusCode := error_statusCode P e,
         res_headers := (res_headers res)
           (''content-type'' \<mapsto> lit ''application/json; charset=utf-8'',
            ''content-length'' \<mapsto>
               lit (decimal (length (utf8_encode (spec_error_envelope (error_message e)))))),
         ended := Some (utf8_encode (spec_error_envelope (error_message e)))\<rparr>"

section \<open>A platform and requests for the examples\<close>

text \<open>
  The examples below run on this platform. Its functions agree with Node's on the inputs
  the examples give them and are simple elsewhere:
  \<^item> the decoders are exact for \<open>utf16le\<close> (a \<open>StringDecoder\<close> holds back a trailing
    lead surrogate and drops an odd last byte) and, for the other encodings, on ASCII
    bytes;
  \<^item> the parsers of the content type, of search parameters and of form bodies split at
    the separators and are exact where nothing is quoted or percent-encoded;
  \<^item> no example sends a compressed or a JSON body: here zlib reports what it reports on
    bytes that are not compressed, and \<open>JSON.parse\<close> accepts nothing.
\<close>

fun utf16le_units :: "byte list \<Rightarrow> jsstring" where
  "utf16le_units (lo # hi # bs) = of_nat (unat lo + 256 * unat hi) # utf16le_units bs"
| "utf16le_units bs = []"

definition ascii_units :: "byte list \<Rightarrow> jsstring" where
  "ascii_units bs = map (\<lambda>b. if b < 0x80 then of_nat (unat b) else 0xFFFD) bs"

definition lead_surrogate_held :: "byte list \<Rightarrow> bool" where
  "lead_surrogate_held bs =
     (even (length bs) \<and> utf16le_units bs \<noteq> [] \<and> is_lead (last (utf16le_units bs)))"

definition example_decoder_write :: "string \<Rightarrow> byte list \<Rightarrow> jsstring" where
  "example_decoder_write encoding bs =
     (if encoding = ''utf16le''
      then (if lead_surrogate_held bs then butlast (utf16le_units bs) else utf16le_units bs)
      else ascii_units bs)"

definition example_decoder_end :: "string \<Rightarrow> byte list \<Rightarrow> jsstring" where
  "example_decoder_end encoding bs =
     (if encoding = ''utf16le'' \<and> lead_surrogate_held bs then [last (utf16le_units bs)] else [])"

definition example_toString :: "string \<Rightarrow> byte list \<Rightarrow> jsstring" where
  "example_toString encoding bs =
     (if encoding = ''utf16le'' then utf16le_units bs else ascii_units bs)"

definition trim :: "string \<Rightarrow> string" where
  "trim s = rev (dropWhile (\<lambda>c. c = CHR '' '') (rev (dropWhile (\<lambda>c. c = CHR '' '') s)))"

definition name_value :: "'a \<Rightarrow> 'a list \<Rightarrow> 'a list \<times> 'a list" where
  "name_value eq s = (takeWhile (\<lambda>c. c \<noteq> eq) s, drop 1 (dropWhile (\<lambda>c. c \<noteq> eq) s))"

definition example_contentType_parse :: "string \<Rightarrow> jsstring + media_type" where
  "example_contentType_parse header =
     (case split CHR '';'' header of
        [] \<Rightarrow> Inl (lit ''invalid media type'')
      | t # ps \<Rightarrow>
          Inr \<lparr>mtype = toLowerCase (trim t),
               parameters =
                 map_of (map (\<lambda>p. (toLowerCase (fst (name_value CHR ''='' (trim p))),
                                    snd (name_value CHR ''='' (trim p)))) ps)\<rparr>)"

definition example_urlencoded_parse :: "string \<Rightarrow> (jsstring \<times> jsstring) list" where
  "example_urlencoded_parse s =
     map (\<lambda>p. (lit (fst (name_value CHR ''='' p)), lit (snd (name_value CHR ''='' p))))
       (filter (\<lambda>p. p \<noteq> []) (split CHR ''&'' s))"

text \<open>\<open>querystring.parse\<close> gives an object without a prototype.\<close>

definition example_querystring_parse :: "jsstring \<Rightarrow> jsval" where
  "example_querystring_parse s =
     Object Ordinary
       (map (\<lambda>p. (fst (name_value 0x3D p), String (snd (name_value 0x3D p))))
          (filter (\<lambda>p. p \<noteq> []) (split 0x26 s)))
       Null"

definition example_statuses :: "nat \<Rightarrow> bool" where
  "example_statuses n =
     (n \<in> set ([100, 101, 102, 103, 200, 201, 202, 203, 204, 205, 206, 207, 208, 226,
                300, 301, 302, 303, 304, 305, 306, 307, 308] @ [400 ..< 419]
               @ [421, 422, 423, 424, 425, 426, 428, 429, 431, 451] @ [500 ..< 512]))"

definition example_platform :: platform where
  "example_platform =
     \<lparr>zlib_inflate = (\<lambda>s. Stream [] (Errored (Error None (lit ''incorrect header check'')))),
      zlib_gunzip = (\<lambda>s. Stream [] (Errored (Error None (lit ''incorrect header check'')))),
      decoder_write = example_decoder_write,
      decoder_end = example_decoder_end,
      buffer_toString = example_toString,
      JSON_parse = (\<lambda>s. Inl (lit ''Unexpected token'')),
      querystring_parse = example_querystring_parse,
      contentType_parse = example_contentType_parse,
      urlencoded_parse = example_urlencoded_parse,
      statuses = example_statuses\<rparr>"

text \<open>
  A request for \<open>target\<close> with the given headers, body slot and bytes on its stream, and a
  response nothing has written to.
\<close>

definition example_request ::
  "string \<Rightarrow> (string \<times> string) list \<Rightarrow> jsval \<Rightarrow> byte list \<Rightarrow> request" where
  "example_request target hs b bs =
     \<lparr>url = target, headers = map_of hs, body = b, stream = Stream bs Ended, consumed = False\<rparr>"

definition fresh_response :: response where
  "fresh_response = \<lparr>statusCode = 200, res_headers = Map.empty, ended = None\<rparr>"

text \<open>The query map of the repository's tests, in part.\<close>

definition example_queryMap :: jsval where
  "example_queryMap =
     object_literal [(lit ''greetGuest'', String (lit ''{ greet }'')),
                     (lit ''like'', String (lit ''mutation LikeMutation { like }''))]"

text \<open>
  A query map that inherits from a prototype of its own, which holds a query text under
  \<open>secret\<close>, and through it from \<open>Object.prototype\<close>.
\<close>

definition inheriting_queryMap :: jsval where
  "inheriting_queryMap =
     Object Ordinary [(lit ''greetGuest'', String (lit ''{ greet }''))]
       (Object Ordinary [(lit ''secret'', String (lit ''{ secret }''))] ObjectPrototype)"

text \<open>Query maps that are functions: one throws, one returns \<open>null\<close>.\<close>

definition throwing_queryMap :: jsval where
  "throwing_queryMap =
     Object (Callable (\<lambda>queryId. Throw (Error None (lit ''Database unavailable'')))) [] Null"

definition null_queryMap :: jsval where
  "null_queryMap = Object (Callable (\<lambda>queryId. Return Null)) [] Null"

text \<open>Parsed options: the defaults with the query map above, and with an empty one.\<close>

definition greet_options :: parsed_options where
  "greet_options = \<lparr>queryIdKey = lit ''queryId'', queryMap = example_queryMap, strict = False\<rparr>"

definition example_options :: parsed_options where
  "example_options = \<lparr>queryIdKey = lit ''queryId'', queryMap = object_literal [], strict = False\<rparr>"

text \<open>\<open>Promise.resolve(null)\<close>, the options of one of the repository's tests.\<close>

definition null_promise :: jsval where
  "null_promise = Object (PromiseOf (Return Null)) [] Null"

text \<open>
  Requests whose body an earlier middleware has parsed: one that asks for \<open>greetGuest\<close>,
  one that asks for \<open>missing\<close> (the specification's second end-to-end example), and one
  that brings a query text of its own and names \<open>greetGuest\<close> in its search parameters.
\<close>

definition greet_request :: request where
  "greet_request =
     example_request ''/graphql'' []
       (object_literal [(lit ''queryId'', String (lit ''greetGuest''))]) []"

definition missing_request :: request where
  "missing_request =
     example_request ''/graphql'' [] (object_literal [(lit ''queryId'', String (lit ''missing''))]) []"

definition overwriting_request :: request where
  "overwriting_request =
     example_request ''/graphql?queryId=greetGuest'' []
       (object_literal [(lit ''query'', String (lit ''{ error }'')),
                        (lit ''operationName'', String (lit ''Greet''))]) []"

text \<open>
  Requests whose body is still on the stream: a form body \<open>queryId=greetGuest\<close>; a JSON
  body \<open>{}\<close> declared in the charset \<open>utf-18\<close>, as in the repository's test; and a
  form body of 100 KiB and one byte declared as \<open>utf16le\<close>, which is 51200 code units
  and a byte, with the media type \<open>contentType.parse\<close> gives for it.
\<close>

definition ascii_bytes :: "string \<Rightarrow> byte list" where
  "ascii_bytes s = map (\<lambda>c. of_nat (of_char c)) s"

definition form_request :: request where
  "form_request =
     example_request ''/graphql'' [(''content-type'', ''application/x-www-form-urlencoded'')]
       Undefined (ascii_bytes ''queryId=greetGuest'')"

definition utf18_request :: request where
  "utf18_request =
     example_request ''/graphql'' [(''content-type'', ''application/json; charset=utf-18'')]
       Undefined [0x7B, 0x7D]"

definition large_request :: request where
  "large_request =
     example_request ''/graphql''
       [(''content-type'', ''application/x-www-form-urlencoded; charset=utf16le'')]
       Undefined (replicate (100 * 1024 + 1) 0x61)"

definition utf16le_form :: media_type where
  "utf16le_form =
     \<lparr>mtype = ''application/x-www-form-urlencoded'', parameters = [''charset'' \<mapsto> ''utf16le'']\<rparr>"

section \<open>Facts about text\<close>

declare decimal.simps [simp del]

lemma unat_unit_of_char: "unat (unit_of_char c) = of_char c"
proof -
  have "(of_char c :: nat) < 256" by (rule nat_of_char_less_256)
  then have "(of_char c :: nat) < 65536" by linarith
  then have "(of_char c :: nat) < 2 ^ LENGTH(16)" by simp
  then show ?thesis
    unfolding unit_of_char_def by (simp add: unat_of_nat)
qed

lemma unit_of_char_inj: "unit_of_char c = unit_of_char d \<longleftrightarrow> c = d"
proof
  assume "unit_of_char c = unit_of_char d"
  then have "unat (unit_of_char c) = unat (unit_of_char d)" by simp
  then have "(of_char c :: nat) = of_char d" by (simp add: unat_unit_of_char)
  then show "c = d" by simp
qed simp

lemma lit_eq_iff [simp]: "lit a = lit b \<longleftrightarrow> a = b"
  unfolding lit_def by (simp add: inj_on_def unit_of_char_inj)

lemma lit_append: "lit (a @ b) = lit a @ lit b"
  by (simp add: lit_def)

lemma length_lit [simp]: "length (lit a) = length a"
  by (simp add: lit_def)

lemma char_of_eq_iff: "(char_of (n::nat) = c) \<longleftrightarrow> (n mod 256 = of_char c)"
proof
  assume "char_of n = c"
  then have "(of_char (char_of n) :: nat) = of_char c" by simp
  then show "n mod 256 = of_char c" by simp
next
  assume "n mod 256 = of_char c"
  then have "char_of (n mod 256) = char_of (of_char c :: nat)" by simp
  then show "char_of n = c" by simp
qed

lemmas text_simps = toLowerCase_def lower_char_def toUpperCase_def upper_char_def char_of_eq_iff
  lit_def unit_of_char_def

text \<open>
  The source upper-cases the charset after lower-casing it. On Latin-1 text that is the
  same as upper-casing it.
\<close>

lemma upper_lower_char: "upper_char (lower_char c) = upper_char c"
proof -
  have b: "(of_char c :: nat) < 256" by (rule nat_of_char_less_256)
  show ?thesis
    using b by (auto simp: upper_char_def lower_char_def Let_def)
qed

lemma toUpperCase_toLowerCase: "toUpperCase (toLowerCase s) = toUpperCase s"
  by (induction s) (simp_all add: toUpperCase_def toLowerCase_def upper_lower_char)

lemma toLowerCase_header_names:
  "toLowerCase ''Content-Type'' = ''content-type''"
  "toLowerCase ''Content-Length'' = ''content-length''"
  by (simp_all add: text_simps)

section \<open>Facts about properties\<close>

lemma map_of_put_own: "map_of (put_own ps k v) = (map_of ps)(k \<mapsto> v)"
  by (induction ps k v rule: put_own.induct) (auto simp: fun_eq_iff)

lemma keys_put_own: "fst ` set (put_own ps k v) = insert k (fst ` set ps)"
  by (induction ps k v rule: put_own.induct) auto

lemma get_property_set_same:
  "isObject b \<Longrightarrow> get_property (set_property b k v) k = v"
  by (cases b rule: isObject.cases) (simp_all add: map_of_put_own)

lemma get_property_set_other:
  "k' \<noteq> k \<Longrightarrow> get_property (set_property b k v) k' = get_property b k'"
  by (cases b) (simp_all add: map_of_put_own)

lemma hasOwnProperty_set_same:
  "isObject b \<Longrightarrow> hasOwnProperty (set_property b k v) k"
  by (cases b rule: isObject.cases) (simp_all add: keys_put_own)

lemma hasOwnProperty_set_other:
  "k' \<noteq> k \<Longrightarrow> hasOwnProperty (set_property b k v) k' = hasOwnProperty b k'"
  by (cases b) (simp_all add: keys_put_own)

lemma inject_query_isObject: "isObject (inject_query b q)"
  by (cases b rule: isObject.cases) (simp_all add: inject_query_def object_literal_def)

section \<open>Facts about the envelope\<close>

text \<open>
  The payload of the \<open>catch\<close> block serialises to the specification's envelope, and the
  block always sends it.
\<close>

lemma JSON_quote_errors: \<open>JSON_quote (lit ''errors'') = lit ''"errors"''\<close>
  by (simp add: JSON_quote_def lit_def unit_of_char_def is_lead_def is_trail_def escape_unit_def)

lemma JSON_quote_message: \<open>JSON_quote (lit ''message'') = lit ''"message"''\<close>
  by (simp add: JSON_quote_def lit_def unit_of_char_def is_lead_def is_trail_def escape_unit_def)

lemma stringify_error_result:
  "JSON_stringify (JObject [(''data'', JUndefined), (''errors'', JArray [formatError m])])
   = Some (spec_error_envelope m)"
  by (simp add: formatError_def spec_error_envelope_def JSON_quote_errors JSON_quote_message
      lit_append [symmetric])

lemma handle_error_responds:
  "handle_error P e req res = Responded req (error_response P e res)"
  unfolding handle_error_def sendJson_def Let_def stringify_error_result
  by (simp add: setHeader_def toLowerCase_header_names error_response_def
      CONTENT_TYPE_JSON_def lit_append [symmetric])

lemma error_statusCode_httpError:
  "400 \<le> s \<Longrightarrow> s < 600 \<Longrightarrow> error_statusCode P (httpError s m) = s"
  by (auto simp: error_statusCode_def httpError_def checked_status_def)

lemma error_statusCode_plain: "error_statusCode P (Error None m) = 500"
  by (simp add: error_statusCode_def checked_status_def HTTP_STATUS_INTERNAL_SERVER_ERROR_def)

section \<open>Facts about materialization\<close>

text \<open>
  Reading the body changes nothing of the request but marks the stream as read, and
  materialization changes the body slot besides.
\<close>

lemma readRawBody_text_frame:
  "readRawBody_text P req cti = (r, req') \<Longrightarrow> req' = req \<or> req' = req\<lparr>consumed := True\<rparr>"
  by (auto simp: readRawBody_text_def Let_def
      split: if_splits sum.splits get_stream_error.splits option.splits)

lemma parseRequestBodyIfNecessary_frame:
  assumes "parseRequestBodyIfNecessary P req = (r, req1)"
  shows "url req1 = url req \<and> headers req1 = headers req \<and> stream req1 = stream req"
proof -
  have f: "\<And>cti r' req'. readRawBody_text P req cti = (r', req')
      \<Longrightarrow> url req' = url req \<and> headers req' = headers req \<and> stream req' = stream req"
    by (drule readRawBody_text_frame) auto
  from assms show ?thesis
    by (auto simp: parseRequestBodyIfNecessary_def
        split: if_splits option.splits sum.splits prod.splits dest: f)
qed

text \<open>
  The size ceiling of the two \<open>readRawBody\<close>. \<open>readRawBody.ts\<close> compares the number of
  decoded bytes with \<open>maxSize\<close>: a stream that ends within the ceiling is decoded, one
  that goes a byte above fails with 413. The function in \<open>parseRequestBodyIfNecessary.ts\<close>
  compares the number of code units of the decoded text with 100 KiB.
\<close>

lemma readRawBody_byte_ceiling:
  assumes "charset = (case parameters cti ''charset'' of Some c \<Rightarrow> toLowerCase c | None \<Rightarrow> ''utf-8'')"
    and "isCharsetSupported charset"
    and "getDecompressedStream P req
           (case headers req ''content-encoding'' of Some e \<Rightarrow> toLowerCase e | None \<Rightarrow> ''identity'')
         = Inr (Stream bs ending)"
  shows "(length bs \<le> maxSize \<and> ending = Ended \<longrightarrow>
            readRawBody P cti maxSize req
              = (Inr (buffer_toString P charset bs), req\<lparr>consumed := True\<rparr>))
       \<and> (length bs > maxSize \<longrightarrow>
            readRawBody P cti maxSize req
              = (Inl (httpError 413 (lit ''Request body too large.'')), req\<lparr>consumed := True\<rparr>))"
  using assms
  by (auto simp: readRawBody_def Let_def HTTP_STATUS_PAYLOAD_TOO_LARGE_def)

lemma readRawBody_text_code_unit_ceiling:
  assumes "charset = (case parameters cti ''charset'' of Some c \<Rightarrow> toLowerCase c | None \<Rightarrow> ''utf-8'')"
    and "isCharsetSupported charset"
    and "getStreamFromRequest P req
           (case headers req ''content-encoding'' of Some e \<Rightarrow> toLowerCase e | None \<Rightarrow> ''identity'')
         = Inr (Stream bs Ended)"
    and "text = decoder_write P charset bs @ decoder_end P charset bs"
  shows "readRawBody_text P req cti
         = (if length text > 100 * 1024
            then Inl (httpError 413 (lit ''Request body too large.''))
            else Inr text,
            req\<lparr>consumed := True\<rparr>)"
  using assms
  by (auto simp: readRawBody_text_def Let_def HTTP_STATUS_PAYLOAD_TOO_LARGE_def
      MAX_BUFFER_SIZE_KIB_def UNIT_KIB_def)

section \<open>Facts about the examples\<close>

lemmas example_simps = example_platform_def example_request_def example_urlencoded_parse_def
  example_contentType_parse_def example_querystring_parse_def name_value_def trim_def
  searchParams_of_def URLSearchParams_def at_index_def searchParams_has_def searchParams_get_def
  queryId_of_def object_literal_def example_queryMap_def

lemma greet_request_queryId:
  "queryId_of example_platform (lit ''queryId'') greet_request = String (lit ''greetGuest'')"
  by (simp add: greet_request_def example_simps)

lemma greet_request_guards:
  "\<not> (strictly \<and> (searchParams_has (searchParams_of example_platform greet_request) (lit ''query'')
        \<or> isObject (body greet_request) \<and> has_property (body greet_request) (lit ''query'')))"
  by (simp add: greet_request_def example_simps ObjectPrototype_def)

lemma missing_fails:
  \<open>getPersistedQuery example_platform (lit ''queryId'') (object_literal []) missing_request False
   = Inl (httpError 400 (lit ''The provided query ID "missing" did not match any persisted query.''))\<close>
  by (simp add: getPersistedQuery_def persistedQuery_of_def missing_request_def example_simps
      HTTP_STATUS_BAD_REQUEST_def lit_append [symmetric])

lemma missing_envelope_length:
  \<open>length (utf8_encode (spec_error_envelope
      (lit ''The provided query ID "missing" did not match any persisted query.''))) = 95\<close>
  by (simp add: spec_error_envelope_def JSON_quote_def lit_def unit_of_char_def is_lead_def is_trail_def escape_unit_def)

lemma utf18_request_fails:
  \<open>parseRequestBodyIfNecessary example_platform utf18_request =
     (Inl (httpError 415 (lit ''Unsupported charset "UTF-18".'')), utf18_request)\<close>
  by (simp add: parseRequestBodyIfNecessary_def readRawBody_text_def utf18_request_def
      example_simps text_simps isCharsetSupported_def CONTENT_TYPE_JSON_def
      HTTP_STATUS_UNSUPPORTED_MEDIA_TYPE_def)

lemma form_request_materialized:
  "parseRequestBodyIfNecessary example_platform form_request
   = (Inr (), form_request\<lparr>consumed := True,
        body := Object Ordinary [(lit ''queryId'', String (lit ''greetGuest''))] Null\<rparr>)"
  by (simp add: parseRequestBodyIfNecessary_def readRawBody_text_def getStreamFromRequest_def
      form_request_def ascii_bytes_def example_simps text_simps isCharsetSupported_def
      CONTENT_TYPE_JSON_def CONTENT_TYPE_FORM_URL_ENCODED_def MAX_BUFFER_SIZE_KIB_def UNIT_KIB_def
      example_decoder_write_def example_decoder_end_def ascii_units_def)

lemma form_request_resolved:
  "getPersistedQuery example_platform (queryIdKey greet_options) (queryMap greet_options)
     (form_request\<lparr>consumed := True,
        body := Object Ordinary [(lit ''queryId'', String (lit ''greetGuest''))] Null\<rparr>)
     (strict greet_options)
   = Inr (Some (lit ''{ greet }''))"
  by (simp add: getPersistedQuery_def persistedQuery_of_def form_request_def example_simps
      greet_options_def)

lemma utf16le_units_replicate:
  "utf16le_units (replicate (2 * n + 1) b) = replicate n (of_nat (unat b + 256 * unat b))"
  by (induction n) simp_all

lemma large_request_text:
  "decoder_write example_platform ''utf16le'' (replicate (100 * 1024 + 1) 0x61)
     @ decoder_end example_platform ''utf16le'' (replicate (100 * 1024 + 1) 0x61)
   = replicate 51200 0x6161"
proof -
  have "utf16le_units (replicate (2 * 51200 + 1) (0x61 :: byte)) = replicate 51200 0x6161"
    unfolding utf16le_units_replicate by simp
  then have u: "utf16le_units (replicate (100 * 1024 + 1) (0x61 :: byte)) = replicate 51200 0x6161"
    by simp
  have h: "\<not> lead_surrogate_held (replicate (100 * 1024 + 1) (0x61 :: byte))"
    by (simp add: lead_surrogate_held_def)
  show ?thesis
    by (simp only: example_platform_def platform.simps example_decoder_write_def
        example_decoder_end_def h u if_True if_False simp_thms append_Nil2)
qed

section \<open>The claims\<close>

subsection \<open>C1: the size ceiling counts bytes\<close>

text \<open>
  Claim C1: a body of at most the ceiling (100 KiB by default) is read, a body one byte
  above it fails with 413 \<open>Request body too large.\<close>, and the bytes of the decoded
  stream are counted, not the characters. \<open>readRawBody.ts\<close> does so
  (\<open>readRawBody_byte_ceiling\<close>). The \<open>readRawBody\<close> of
  \<open>parseRequestBodyIfNecessary.ts\<close> does not: a body of 102401 bytes declared as
  \<open>utf16le\<close> is 51200 code units, and it is read and returned, where
  \<open>readRawBody.ts\<close> with the same ceiling fails with 413.
\<close>

theorem text_ceiling_counts_code_units:
  \<open>length (replicate (100 * 1024 + 1) (0x61 :: byte)) = 100 * 1024 + 1
   \<and> readRawBody_text example_platform large_request utf16le_form
     = (Inr (replicate 51200 0x6161), large_request\<lparr>consumed := True\<rparr>)
   \<and> readRawBody example_platform utf16le_form (100 * 1024) large_request
     = (Inl (httpError 413 (lit ''Request body too large.'')), large_request\<lparr>consumed := True\<rparr>)\<close>
proof -
  have c: "''utf16le'' = (case parameters utf16le_form ''charset'' of
             Some c \<Rightarrow> toLowerCase c | None \<Rightarrow> ''utf-8'')"
    by (simp add: utf16le_form_def text_simps)
  have s: "isCharsetSupported ''utf16le''"
    by (simp add: isCharsetSupported_def)
  have g: "getStreamFromRequest example_platform large_request
             (case headers large_request ''content-encoding'' of
                Some e \<Rightarrow> toLowerCase e | None \<Rightarrow> ''identity'')
           = Inr (Stream (replicate (100 * 1024 + 1) 0x61) Ended)"
    by (simp add: getStreamFromRequest_def large_request_def example_request_def)
  have d: "getDecompressedStream example_platform large_request
             (case headers large_request ''content-encoding'' of
                Some e \<Rightarrow> toLowerCase e | None \<Rightarrow> ''identity'')
           = Inr (Stream (replicate (100 * 1024 + 1) 0x61) Ended)"
    by (simp add: getDecompressedStream_def large_request_def example_request_def)
  have t: "readRawBody_text example_platform large_request utf16le_form
     = (Inr (replicate 51200 0x6161), large_request\<lparr>consumed := True\<rparr>)"
    using readRawBody_text_code_unit_ceiling [OF c s g large_request_text [symmetric]]
    by simp
  have b: "readRawBody example_platform utf16le_form (100 * 1024) large_request
     = (Inl (httpError 413 (lit ''Request body too large.'')), large_request\<lparr>consumed := True\<rparr>)"
    using readRawBody_byte_ceiling [OF c s d, of "100 * 1024"]
    by simp
  from t b show ?thesis by simp
qed

subsection \<open>C2: the query map is looked up by own property\<close>

text \<open>
  Claim C2: when the query map is an object and the query id taken from the request is
  not an own property of it, \<open>getPersistedQuery\<close> fails with 400 and the message
  \<open>The provided query ID "<id>" did not match any persisted query.\<close>, whatever the
  object inherits under that name.
\<close>

theorem own_property_lookup:
  assumes "isObject qmap"
    and "\<not> hasOwnProperty qmap qid"
    and "queryId_of P key req = String qid"
    and "\<not> (strictly \<and> (searchParams_has (searchParams_of P req) (lit ''query'')
                        \<or> isObject (body req) \<and> has_property (body req) (lit ''query'')))"
  shows \<open>getPersistedQuery P key qmap req strictly =
           Inl (httpError 400 (lit ''The provided query ID "'' @ qid
                               @ lit ''" did not match any persisted query.''))\<close>
proof -
  from assms(1) have nf: "\<not> isFunction qmap"
    by (cases qmap rule: isFunction.cases) auto
  with assms(2) have "persistedQuery_of qmap qid = Inr Null"
    by (simp add: persistedQuery_of_def)
  with assms(3,4) show ?thesis
    by (auto simp: getPersistedQuery_def HTTP_STATUS_BAD_REQUEST_def)
qed

text \<open>
  At the ids \<open>secret\<close> and \<open>toString\<close>, which the example query map inherits (a string
  and a function), once in strict mode and once not.
\<close>

theorem own_property_lookup_witness:
  \<open>get_property inheriting_queryMap (lit ''secret'') = String (lit ''{ secret }'')
   \<and> isFunction (get_property inheriting_queryMap (lit ''toString''))
   \<and> getPersistedQuery example_platform (lit ''queryId'') inheriting_queryMap
       (example_request ''/graphql'' [] (object_literal [(lit ''queryId'', String (lit ''secret''))]) [])
       True
     = Inl (httpError 400 (lit ''The provided query ID "secret" did not match any persisted query.''))
   \<and> getPersistedQuery example_platform (lit ''queryId'') inheriting_queryMap
       (example_request ''/graphql'' [] (object_literal [(lit ''queryId'', String (lit ''toString''))]) [])
       False
     = Inl (httpError 400 (lit ''The provided query ID "toString" did not match any persisted query.''))\<close>
proof -
  let ?r1 = "example_request ''/graphql'' [] (object_literal [(lit ''queryId'', String (lit ''secret''))]) []"
  let ?r2 = "example_request ''/graphql'' [] (object_literal [(lit ''queryId'', String (lit ''toString''))]) []"
  have o: "isObject inheriting_queryMap"
    by (simp add: inheriting_queryMap_def)
  have n1: "\<not> hasOwnProperty inheriting_queryMap (lit ''secret'')"
    and n2: "\<not> hasOwnProperty inheriting_queryMap (lit ''toString'')"
    by (simp_all add: inheriting_queryMap_def)
  have q1: "queryId_of example_platform (lit ''queryId'') ?r1 = String (lit ''secret'')"
    and q2: "queryId_of example_platform (lit ''queryId'') ?r2 = String (lit ''toString'')"
    by (simp_all add: example_simps)
  have g1: "\<not> (True \<and> (searchParams_has (searchParams_of example_platform ?r1) (lit ''query'')
                        \<or> isObject (body ?r1) \<and> has_property (body ?r1) (lit ''query'')))"
    by (simp add: example_simps ObjectPrototype_def)
  have g2: "\<not> (False \<and> (searchParams_has (searchParams_of example_platform ?r2) (lit ''query'')
                        \<or> isObject (body ?r2) \<and> has_property (body ?r2) (lit ''query'')))"
    by simp
  have i1: "get_property inheriting_queryMap (lit ''secret'') = String (lit ''{ secret }'')"
    by (simp add: inheriting_queryMap_def)
  have i2: "isFunction (get_property inheriting_queryMap (lit ''toString''))"
    by (simp add: inheriting_queryMap_def ObjectPrototype_def native_def)
  from own_property_lookup [OF o n1 q1 g1] own_property_lookup [OF o n2 q2 g2] i1 i2
  show ?thesis by (simp add: lit_append [symmetric])
qed

subsection \<open>C3: the order of the strict guards\<close>

text \<open>
  Claim C3: in strict mode, whatever the query id key and the query map are,
  \<open>getPersistedQuery\<close> fails with 400 and
  \<open>Search params have "query" but only persisted queries are allowed.\<close> when the search
  parameters have a \<open>query\<close> key, and otherwise with 400 and
  \<open>Request body has "query" but only persisted queries are allowed.\<close> when the body is
  an object with a \<open>query\<close> key; so the first wins when both are there.
\<close>

theorem strict_guards_order:
  \<open>(searchParams_has (searchParams_of P req) (lit ''query'') \<longrightarrow>
      getPersistedQuery P key qmap req True =
        Inl (httpError 400
              (lit ''Search params have "query" but only persisted queries are allowed.'')))
   \<and> (\<not> searchParams_has (searchParams_of P req) (lit ''query'')
        \<and> isObject (body req) \<and> has_property (body req) (lit ''query'') \<longrightarrow>
      getPersistedQuery P key qmap req True =
        Inl (httpError 400
              (lit ''Request body has "query" but only persisted queries are allowed.'')))\<close>
  by (simp add: getPersistedQuery_def HTTP_STATUS_BAD_REQUEST_def)

text \<open>
  A request with \<open>query\<close> in its search parameters and in its body, next to a valid
  query id; and one with \<open>query\<close> in its body only.
\<close>

theorem strict_guards_order_witness:
  \<open>getPersistedQuery example_platform (lit ''queryId'') example_queryMap
      (example_request ''/graphql?query={greet}&queryId=greetGuest'' []
         (object_literal [(lit ''query'', String (lit ''{ greet }''))]) []) True
    = Inl (httpError 400
            (lit ''Search params have "query" but only persisted queries are allowed.''))
   \<and> getPersistedQuery example_platform (lit ''queryId'') example_queryMap
      (example_request ''/graphql?queryId=greetGuest'' []
         (object_literal [(lit ''query'', String (lit ''{ greet }''))]) []) True
    = Inl (httpError 400
            (lit ''Request body has "query" but only persisted queries are allowed.''))\<close>
proof -
  let ?r1 = "example_request ''/graphql?query={greet}&queryId=greetGuest'' []
         (object_literal [(lit ''query'', String (lit ''{ greet }''))]) []"
  let ?r2 = "example_request ''/graphql?queryId=greetGuest'' []
         (object_literal [(lit ''query'', String (lit ''{ greet }''))]) []"
  have a: "searchParams_has (searchParams_of example_platform ?r1) (lit ''query'')"
    by (simp add: example_simps)
  have b: "\<not> searchParams_has (searchParams_of example_platform ?r2) (lit ''query'')
           \<and> isObject (body ?r2) \<and> has_property (body ?r2) (lit ''query'')"
    by (simp add: example_simps)
  from strict_guards_order [of example_platform ?r1 "lit ''queryId''" example_queryMap] a
       strict_guards_order [of example_platform ?r2 "lit ''queryId''" example_queryMap] b
  show ?thesis by simp
qed

subsection \<open>C4: every failure is answered with the error envelope\<close>

text \<open>
  Claim C4: when the options promise is rejected, or materialization or query resolution
  throws, with \<open>e\<close>, the middleware does not call the continuation and sends the
  response \<open>error_response P e res\<close>: the status code of \<open>e\<close> (its own status when
  \<open>e\<close> was made by \<open>httpError\<close> with a status in 400..599), the content type
  \<open>application/json; charset=utf-8\<close>, the byte length of the UTF-8 payload as content
  length, and the payload \<open>{"errors":[{"message": <message of e>}]}\<close>.
\<close>

theorem failure_error_envelope:
  "(po = Inl e \<longrightarrow>
      persistedQueriesMiddleware P po req res = Responded req (error_response P e res))
   \<and> (po = Inr opts \<and> parseRequestBodyIfNecessary P req = (Inl e, req1) \<longrightarrow>
      persistedQueriesMiddleware P po req res = Responded req1 (error_response P e res))
   \<and> (po = Inr opts \<and> parseRequestBodyIfNecessary P req = (Inr u, req1)
        \<and> getPersistedQuery P (queryIdKey opts) (queryMap opts) req1 (strict opts) = Inl e \<longrightarrow>
      persistedQueriesMiddleware P po req res = Responded req1 (error_response P e res))
   \<and> (400 \<le> s \<and> s < 600 \<longrightarrow> statusCode (error_response P (httpError s m) res) = s)"
  by (simp add: persistedQueriesMiddleware_def handle_error_responds error_response_def
      error_statusCode_httpError)

text \<open>
  A rejected options promise, the request with the charset \<open>utf-18\<close>, and the
  specification's second end-to-end example, which gives status 400 and a payload of 95
  bytes.
\<close>

theorem failure_error_envelope_witness:
  \<open>persistedQueriesMiddleware example_platform (Inl (Error None (lit ''Failed to resolve options.'')))
      greet_request fresh_response
    = Responded greet_request
        (error_response example_platform (Error None (lit ''Failed to resolve options.''))
           fresh_response)
   \<and> persistedQueriesMiddleware example_platform (Inr example_options) utf18_request fresh_response
    = Responded utf18_request
        (error_response example_platform
           (httpError 415 (lit ''Unsupported charset "UTF-18".'')) fresh_response)
   \<and> persistedQueriesMiddleware example_platform (Inr example_options) missing_request fresh_response
    = Responded missing_request
        (error_response example_platform
          (httpError 400 (lit ''The provided query ID "missing" did not match any persisted query.''))
          fresh_response)
   \<and> statusCode (error_response example_platform
          (httpError 400 (lit ''The provided query ID "missing" did not match any persisted query.''))
          fresh_response) = 400
   \<and> res_headers (error_response example_platform
          (httpError 400 (lit ''The provided query ID "missing" did not match any persisted query.''))
          fresh_response) ''content-length'' = Some (lit ''95'')\<close>
proof -
  let ?e = \<open>httpError 400 (lit ''The provided query ID "missing" did not match any persisted query.'')\<close>
  have n: "parseRequestBodyIfNecessary example_platform missing_request = (Inr (), missing_request)"
    by (simp add: parseRequestBodyIfNecessary_def missing_request_def example_request_def
        object_literal_def)
  have q: "getPersistedQuery example_platform (queryIdKey example_options)
             (queryMap example_options) missing_request (strict example_options) = Inl ?e"
    using missing_fails by (simp add: example_options_def)
  have l: "res_headers (error_response example_platform ?e fresh_response) ''content-length''
           = Some (lit ''95'')"
    using missing_envelope_length
    by (simp add: error_response_def httpError_def decimal.simps)
  from failure_error_envelope
      [of "Inl (Error None (lit ''Failed to resolve options.''))" _ example_platform
          greet_request fresh_response]
    failure_error_envelope
      [of "Inr example_options" _ example_platform utf18_request fresh_response example_options,
       THEN conjunct2, THEN conjunct1] utf18_request_fails
    failure_error_envelope
      [of "Inr example_options" ?e example_platform missing_request fresh_response
          example_options missing_request "()" 400, THEN conjunct2, THEN conjunct2] n q l
  show ?thesis
    by (simp add: httpError_def)
qed

subsection \<open>C5: an unsupported charset is rejected before the stream is read\<close>

text \<open>
  Claim C5: when the declared charset, in lower case, is none of \<open>utf-8\<close>, \<open>utf8\<close> and
  \<open>utf16le\<close>, both \<open>readRawBody\<close> fail with 415 and the message
  \<open>Unsupported charset "<TOKEN>".\<close>, the token in upper case, and leave the request as it
  was, so nothing has been read from the stream; and so does
  \<open>parseRequestBodyIfNecessary\<close> for a JSON or form-urlencoded request without a body,
  whatever is on the stream.
\<close>

theorem unsupported_charset_rejected:
  assumes "parameters cti ''charset'' = Some cs"
    and "\<not> isCharsetSupported (toLowerCase cs)"
  shows \<open>readRawBody_text P req cti =
           (Inl (httpError 415 (lit ''Unsupported charset "'' @ toUpperCase cs @ lit ''".'')), req)
       \<and> readRawBody P cti maxSize req =
           (Inl (httpError 415 (lit ''Unsupported charset "'' @ toUpperCase cs @ lit ''".'')), req)
       \<and> (\<not> nonNull (body req) \<and> headers req ''content-type'' = Some header
            \<and> contentType_parse P header = Inr cti
            \<and> (mtype cti = CONTENT_TYPE_JSON \<or> mtype cti = CONTENT_TYPE_FORM_URL_ENCODED)
          \<longrightarrow> parseRequestBodyIfNecessary P req =
           (Inl (httpError 415 (lit ''Unsupported charset "'' @ toUpperCase cs @ lit ''".'')), req))\<close>
proof -
  have t: \<open>readRawBody_text P req cti =
           (Inl (httpError 415 (lit ''Unsupported charset "'' @ toUpperCase cs @ lit ''".'')), req)\<close>
    using assms
    by (simp add: readRawBody_text_def toUpperCase_toLowerCase HTTP_STATUS_UNSUPPORTED_MEDIA_TYPE_def)
  have b: \<open>readRawBody P cti maxSize req =
           (Inl (httpError 415 (lit ''Unsupported charset "'' @ toUpperCase cs @ lit ''".'')), req)\<close>
    using assms
    by (simp add: readRawBody_def toUpperCase_toLowerCase HTTP_STATUS_UNSUPPORTED_MEDIA_TYPE_def)
  from t b show ?thesis
    by (auto simp: parseRequestBodyIfNecessary_def)
qed

text \<open>
  The repository's test: the charset \<open>utf-18\<close> is reported as \<open>UTF-18\<close>.
\<close>

theorem unsupported_charset_rejected_witness:
  \<open>parseRequestBodyIfNecessary example_platform utf18_request =
     (Inl (httpError 415 (lit ''Unsupported charset "UTF-18".'')), utf18_request)
   \<and> consumed utf18_request = False\<close>
proof -
  let ?cti = "\<lparr>mtype = ''application/json'', parameters = [''charset'' \<mapsto> ''utf-18'']\<rparr>"
  have p: "contentType_parse example_platform ''application/json; charset=utf-18'' = Inr ?cti"
    by (simp add: example_simps text_simps)
  have c: "parameters ?cti ''charset'' = Some ''utf-18''"
    by simp
  have u: "\<not> isCharsetSupported (toLowerCase ''utf-18'')"
    by (simp add: isCharsetSupported_def text_simps)
  have h: "\<not> nonNull (body utf18_request)
           \<and> headers utf18_request ''content-type'' = Some ''application/json; charset=utf-18''
           \<and> contentType_parse example_platform ''application/json; charset=utf-18'' = Inr ?cti
           \<and> (mtype ?cti = CONTENT_TYPE_JSON \<or> mtype ?cti = CONTENT_TYPE_FORM_URL_ENCODED)"
    using p by (simp add: utf18_request_def example_request_def CONTENT_TYPE_JSON_def)
  have up: \<open>lit ''Unsupported charset "'' @ toUpperCase ''utf-18'' @ lit ''".''
            = lit ''Unsupported charset "UTF-18".''\<close>
    by (simp add: text_simps)
  note r = unsupported_charset_rejected [OF c u, of example_platform utf18_request _
      "''application/json; charset=utf-18''"]
  from r h have \<open>parseRequestBodyIfNecessary example_platform utf18_request =
     (Inl (httpError 415 (lit ''Unsupported charset "'' @ toUpperCase ''utf-18'' @ lit ''".'')),
      utf18_request)\<close>
    by blast
  then show ?thesis
    unfolding up by (simp add: utf18_request_def example_request_def)
qed

subsection \<open>C6: a query map function that throws\<close>

text \<open>
  Claim C6 says that a callback that throws, or whose promise is rejected, gives the same
  400 failure as one that returns \<open>null\<close>. The source does not catch what the callback
  throws: \<open>getPersistedQuery\<close> fails with the thrown value itself, and the middleware
  answers with status 500 and the thrown error's message.
\<close>

theorem callback_throw_counterexample:
  \<open>getPersistedQuery example_platform (lit ''queryId'') throwing_queryMap greet_request False
     = Inl (Error None (lit ''Database unavailable''))
   \<and> getPersistedQuery example_platform (lit ''queryId'') throwing_queryMap greet_request False
     \<noteq> Inl (httpError 400
             (lit ''The provided query ID "greetGuest" did not match any persisted query.''))
   \<and> statusCode (error_response example_platform (Error None (lit ''Database unavailable''))
        fresh_response) = 500\<close>
proof -
  have "persistedQuery_of throwing_queryMap (lit ''greetGuest'')
        = Inl (Error None (lit ''Database unavailable''))"
    by (simp add: persistedQuery_of_def throwing_queryMap_def)
  then have "getPersistedQuery example_platform (lit ''queryId'') throwing_queryMap greet_request False
     = Inl (Error None (lit ''Database unavailable''))"
    using greet_request_queryId by (simp add: getPersistedQuery_def)
  then show ?thesis
    by (simp add: httpError_def error_response_def error_statusCode_plain)
qed

text \<open>
  Claim C6, amended: when the query map is a function and it throws, or its promise is
  rejected, with \<open>t\<close> for the query id taken from the request, \<open>getPersistedQuery\<close>
  fails with \<open>t\<close>, which the middleware's \<open>catch\<close> block answers with the status and
  the message of \<open>t\<close>; when the function returns, or its promise is fulfilled with, a
  value that is not a string, \<open>getPersistedQuery\<close> fails with 400 and
  \<open>The provided query ID "<id>" did not match any persisted query.\<close>
\<close>

theorem callback_outcomes:
  assumes "isFunction qmap"
    and "queryId_of P key req = String qid"
    and "\<not> (strictly \<and> (searchParams_has (searchParams_of P req) (lit ''query'')
                        \<or> isObject (body req) \<and> has_property (body req) (lit ''query'')))"
  shows \<open>(await_completion (call qmap qid) = Inl t \<longrightarrow>
            getPersistedQuery P key qmap req strictly = Inl t
            \<and> handle_error P t req res = Responded req (error_response P t res))
       \<and> (await_completion (call qmap qid) = Inr v \<and> \<not> isString v \<longrightarrow>
            getPersistedQuery P key qmap req strictly =
              Inl (httpError 400 (lit ''The provided query ID "'' @ qid
                                  @ lit ''" did not match any persisted query.'')))\<close>
proof -
  have s: "\<not> isString v \<Longrightarrow> string_of v = None"
    by (cases v) simp_all
  from assms(1) have p: "persistedQuery_of qmap qid = await_completion (call qmap qid)"
    by (simp add: persistedQuery_of_def)
  from assms(2,3) p s show ?thesis
    by (auto simp: getPersistedQuery_def HTTP_STATUS_BAD_REQUEST_def handle_error_responds)
qed

text \<open>
  The function that throws, and the function that returns \<open>null\<close>.
\<close>

theorem callback_outcomes_witness:
  \<open>getPersistedQuery example_platform (lit ''queryId'') throwing_queryMap greet_request True
     = Inl (Error None (lit ''Database unavailable''))
   \<and> handle_error example_platform (Error None (lit ''Database unavailable'')) greet_request
        fresh_response
     = Responded greet_request
         (error_response example_platform (Error None (lit ''Database unavailable''))
            fresh_response)
   \<and> getPersistedQuery example_platform (lit ''queryId'') null_queryMap greet_request True
     = Inl (httpError 400
             (lit ''The provided query ID "greetGuest" did not match any persisted query.''))\<close>
proof -
  have f1: "isFunction throwing_queryMap" and f2: "isFunction null_queryMap"
    by (simp_all add: throwing_queryMap_def null_queryMap_def)
  have t: "await_completion (call throwing_queryMap (lit ''greetGuest''))
           = Inl (Error None (lit ''Database unavailable''))"
    by (simp add: throwing_queryMap_def)
  have n: "await_completion (call null_queryMap (lit ''greetGuest'')) = Inr Null \<and> \<not> isString Null"
    by (simp add: null_queryMap_def)
  from callback_outcomes [where strictly = True and res = fresh_response
      and t = "Error None (lit ''Database unavailable'')",
      OF f1 greet_request_queryId greet_request_guards] t
    callback_outcomes [where strictly = True and v = Null,
      OF f2 greet_request_queryId greet_request_guards] n
  show ?thesis by (simp add: lit_append [symmetric])
qed

subsection \<open>C7: the options are parsed once\<close>

text \<open>
  Claim C7: when the options do not resolve to an object, or their query map resolves to
  neither an object nor a function, \<open>persistedQueries\<close> returns a middleware whose
  \<open>parsedOptions\<close> is settled as rejected with the TypeError of that assertion, and passes
  that error to \<open>console.error\<close> once; the middleware, which takes the settled value and
  never the options, answers every request with status 500 and that error's message.
\<close>

theorem configuration_failure_memoized:
  assumes "nonNull options"
    and "await options = Inr opts"
    and "(\<not> isObject opts
          \<and> msg = lit ''The options passed to persistedQueries must be an object or a promise that resolves with an object.'')
       \<or> (isObject opts \<and> await (get_property opts (lit ''queryMap'')) = Inr qm
          \<and> \<not> isObject qm \<and> \<not> isFunction qm
          \<and> msg = lit ''options.queryMap must be an object, a function, or a promise that resolves with an object or function.'')"
  shows "persistedQueries options
           = Inr \<lparr>parsedOptions = Inl (Error None msg), console_error = [Error None msg]\<rparr>
       \<and> (\<forall>req res.
             persistedQueriesMiddleware P (Inl (Error None msg)) req res
               = Responded req (error_response P (Error None msg) res)
           \<and> statusCode (error_response P (Error None msg) res) = 500
           \<and> ended (error_response P (Error None msg) res)
               = Some (utf8_encode (spec_error_envelope msg)))"
proof -
  from assms(2,3) have "parseOptions options = Inl (Error None msg)"
    by (auto simp: parseOptions_def assert_def)
  with assms(1) have "persistedQueries options
           = Inr \<lparr>parsedOptions = Inl (Error None msg), console_error = [Error None msg]\<rparr>"
    by (simp add: persistedQueries_def assert_def)
  moreover have "\<forall>req res.
             persistedQueriesMiddleware P (Inl (Error None msg)) req res
               = Responded req (error_response P (Error None msg) res)
           \<and> statusCode (error_response P (Error None msg) res) = 500
           \<and> ended (error_response P (Error None msg) res)
               = Some (utf8_encode (spec_error_envelope msg))"
    by (simp add: persistedQueriesMiddleware_def handle_error_responds error_response_def
        error_statusCode_plain)
  ultimately show ?thesis by blast
qed

text \<open>
  The repository's tests with \<open>Promise.resolve(null)\<close> as options and as query map.
\<close>

theorem configuration_failure_memoized_witness:
  "persistedQueries null_promise
     = Inr \<lparr>parsedOptions = Inl (Error None (lit ''The options passed to persistedQueries must be an object or a promise that resolves with an object.'')),
            console_error = [Error None (lit ''The options passed to persistedQueries must be an object or a promise that resolves with an object.'')]\<rparr>
   \<and> persistedQueriesMiddleware example_platform
        (Inl (Error None (lit ''The options passed to persistedQueries must be an object or a promise that resolves with an object.'')))
        (example_request ''/graphql?queryId=greetGuest'' [] Undefined []) fresh_response
     = Responded (example_request ''/graphql?queryId=greetGuest'' [] Undefined [])
         (error_response example_platform
            (Error None (lit ''The options passed to persistedQueries must be an object or a promise that resolves with an object.''))
            fresh_response)
   \<and> statusCode (error_response example_platform
            (Error None (lit ''The options passed to persistedQueries must be an object or a promise that resolves with an object.''))
            fresh_response) = 500
   \<and> persistedQueries (object_literal [(lit ''queryMap'', null_promise)])
     = Inr \<lparr>parsedOptions = Inl (Error None (lit ''options.queryMap must be an object, a function, or a promise that resolves with an object or function.'')),
            console_error = [Error None (lit ''options.queryMap must be an object, a function, or a promise that resolves with an object or function.'')]\<rparr>"
proof -
  let ?m = "lit ''The options passed to persistedQueries must be an object or a promise that resolves with an object.''"
  let ?m2 = "lit ''options.queryMap must be an object, a function, or a promise that resolves with an object or function.''"
  let ?o = "object_literal [(lit ''queryMap'', null_promise)]"
  have n: "nonNull null_promise" by (simp add: null_promise_def)
  have a: "await null_promise = Inr Null" by (simp add: null_promise_def)
  have h: "(\<not> isObject Null \<and> ?m = ?m)
       \<or> (isObject Null \<and> await (get_property Null (lit ''queryMap'')) = Inr Undefined
          \<and> \<not> isObject Undefined \<and> \<not> isFunction Undefined \<and> ?m = ?m2)"
    by simp
  have n2: "nonNull ?o" and a2: "await ?o = Inr ?o"
    by (simp_all add: object_literal_def)
  have h2: "(\<not> isObject ?o \<and> ?m2 = ?m)
       \<or> (isObject ?o \<and> await (get_property ?o (lit ''queryMap'')) = Inr Null
          \<and> \<not> isObject Null \<and> \<not> isFunction Null \<and> ?m2 = ?m2)"
    by (simp add: object_literal_def null_promise_def)
  from configuration_failure_memoized [OF n a h, of example_platform]
    configuration_failure_memoized [OF n2 a2 h2, of example_platform]
  show ?thesis by blast
qed

subsection \<open>C8: materialization is a no-op on a parsed body and without a content type\<close>

text \<open>
  Claim C8: for a request whose body slot is not null, and for a request without a
  \<open>content-type\<close> header, \<open>parseRequestBodyIfNecessary\<close> returns the request as it
  was: the same body, nothing read from the stream. So materializing again a request
  whose body a first materialization filled changes nothing.
\<close>

theorem parseRequestBodyIfNecessary_noop:
  "(nonNull (body req) \<or> headers req ''content-type'' = None \<longrightarrow>
      parseRequestBodyIfNecessary P req = (Inr (), req))
   \<and> (parseRequestBodyIfNecessary P req = (r, req1) \<and> nonNull (body req1) \<longrightarrow>
      parseRequestBodyIfNecessary P req1 = (Inr (), req1))"
proof (intro conjI impI)
  assume "nonNull (body req) \<or> headers req ''content-type'' = None"
  then show "parseRequestBodyIfNecessary P req = (Inr (), req)"
    by (auto simp: parseRequestBodyIfNecessary_def)
next
  assume "parseRequestBodyIfNecessary P req = (r, req1) \<and> nonNull (body req1)"
  then have "nonNull (body req1)" by simp
  then show "parseRequestBodyIfNecessary P req1 = (Inr (), req1)"
    by (simp add: parseRequestBodyIfNecessary_def)
qed

text \<open>
  A request with a parsed body and a JSON content type, a request without a content type
  and with bytes on its stream, and the form request after its materialization.
\<close>

theorem parseRequestBodyIfNecessary_noop_witness:
  "parseRequestBodyIfNecessary example_platform greet_request = (Inr (), greet_request)
   \<and> parseRequestBodyIfNecessary example_platform
        (example_request ''/graphql'' [] Undefined [0x7B, 0x7D])
     = (Inr (), example_request ''/graphql'' [] Undefined [0x7B, 0x7D])
   \<and> parseRequestBodyIfNecessary example_platform
        (form_request\<lparr>consumed := True,
           body := Object Ordinary [(lit ''queryId'', String (lit ''greetGuest''))] Null\<rparr>)
     = (Inr (),
        form_request\<lparr>consumed := True,
           body := Object Ordinary [(lit ''queryId'', String (lit ''greetGuest''))] Null\<rparr>)"
proof -
  let ?parsed = "form_request\<lparr>consumed := True,
           body := Object Ordinary [(lit ''queryId'', String (lit ''greetGuest''))] Null\<rparr>"
  have a: "nonNull (body greet_request)"
    by (simp add: greet_request_def example_request_def object_literal_def)
  have b: "headers (example_request ''/graphql'' [] Undefined [0x7B, 0x7D]) ''content-type'' = None"
    by (simp add: example_request_def)
  have c: "parseRequestBodyIfNecessary example_platform form_request = (Inr (), ?parsed)
           \<and> nonNull (body ?parsed)"
    using form_request_materialized by simp
  from parseRequestBodyIfNecessary_noop [of greet_request example_platform] a
    parseRequestBodyIfNecessary_noop
      [of "example_request ''/graphql'' [] Undefined [0x7B, 0x7D]" example_platform] b
    parseRequestBodyIfNecessary_noop [of form_request example_platform "Inr ()" ?parsed] c
  show ?thesis by blast
qed

subsection \<open>C9: on success the query text is in the body\<close>

text \<open>
  Claim C9 says that on success the middleware changes nothing of the request but
  \<open>body.query\<close>. It also materializes the body: the form request comes in with an empty
  body slot and an unread stream, and goes to the continuation with the stream read and
  a body that has the entry \<open>queryId\<close> next to \<open>query\<close>.
\<close>

theorem materialization_counterexample:
  "persistedQueriesMiddleware example_platform (Inr greet_options) form_request fresh_response
   = Next (form_request\<lparr>consumed := True,
             body := Object Ordinary [(lit ''queryId'', String (lit ''greetGuest'')),
                                      (lit ''query'', String (lit ''{ greet }''))] Null\<rparr>)
          fresh_response
   \<and> get_property (Object Ordinary [(lit ''queryId'', String (lit ''greetGuest'')),
                                     (lit ''query'', String (lit ''{ greet }''))] Null)
         (lit ''queryId'') = String (lit ''greetGuest'')
   \<and> get_property (body form_request) (lit ''queryId'') = Undefined
   \<and> body form_request = Undefined
   \<and> consumed form_request = False"
  using form_request_materialized form_request_resolved
  by (simp add: persistedQueriesMiddleware_def inject_query_def)
    (simp add: form_request_def example_request_def)

text \<open>
  Claim C9, amended: when materialization succeeds and the resolver returns the string
  \<open>q\<close>, the middleware calls the continuation and leaves the response as it was; the
  body is then an object with \<open>q\<close> as its own property \<open>query\<close>; the request target,
  the headers and the stream's content are as they came in; and the body is the
  materialized body with nothing changed but \<open>query\<close> when that is an object, and
  \<open>{ query: q }\<close> otherwise.
\<close>

theorem success_injects_query:
  assumes "parseRequestBodyIfNecessary P req = (Inr u, req1)"
    and "getPersistedQuery P (queryIdKey opts) (queryMap opts) req1 (strict opts) = Inr (Some q)"
  shows "persistedQueriesMiddleware P (Inr opts) req res
           = Next (req1\<lparr>body := inject_query (body req1) q\<rparr>) res
       \<and> isObject (inject_query (body req1) q)
       \<and> hasOwnProperty (inject_query (body req1) q) (lit ''query'')
       \<and> get_property (inject_query (body req1) q) (lit ''query'') = String q
       \<and> url req1 = url req \<and> headers req1 = headers req \<and> stream req1 = stream req
       \<and> (isObject (body req1) \<longrightarrow>
             (\<forall>k. k \<noteq> lit ''query'' \<longrightarrow>
                get_property (inject_query (body req1) q) k = get_property (body req1) k
                \<and> hasOwnProperty (inject_query (body req1) q) k = hasOwnProperty (body req1) k))
       \<and> (\<not> isObject (body req1) \<longrightarrow>
             inject_query (body req1) q = object_literal [(lit ''query'', String q)])"
proof -
  have m: "persistedQueriesMiddleware P (Inr opts) req res
           = Next (req1\<lparr>body := inject_query (body req1) q\<rparr>) res"
    using assms by (simp add: persistedQueriesMiddleware_def)
  have p: "hasOwnProperty (inject_query (body req1) q) (lit ''query'')
       \<and> get_property (inject_query (body req1) q) (lit ''query'') = String q"
    by (simp add: inject_query_def get_property_set_same hasOwnProperty_set_same
        object_literal_def)
  have f: "isObject (body req1) \<longrightarrow>
             (\<forall>k. k \<noteq> lit ''query'' \<longrightarrow>
                get_property (inject_query (body req1) q) k = get_property (body req1) k
                \<and> hasOwnProperty (inject_query (body req1) q) k = hasOwnProperty (body req1) k)"
    by (simp add: inject_query_def get_property_set_other hasOwnProperty_set_other)
  have n: "\<not> isObject (body req1) \<longrightarrow>
             inject_query (body req1) q = object_literal [(lit ''query'', String q)]"
    by (simp add: inject_query_def)
  from m p f n inject_query_isObject parseRequestBodyIfNecessary_frame [OF assms(1)]
  show ?thesis by blast
qed

text \<open>
  The form request: \<open>queryId\<close> stays, \<open>query\<close> is added.
\<close>

theorem success_injects_query_witness:
  "persistedQueriesMiddleware example_platform (Inr greet_options) form_request fresh_response
   = Next (form_request\<lparr>consumed := True,
             body := Object Ordinary [(lit ''queryId'', String (lit ''greetGuest'')),
                                      (lit ''query'', String (lit ''{ greet }''))] Null\<rparr>)
          fresh_response
   \<and> get_property (Object Ordinary [(lit ''queryId'', String (lit ''greetGuest'')),
                                     (lit ''query'', String (lit ''{ greet }''))] Null)
         (lit ''query'') = String (lit ''{ greet }'')
   \<and> url form_request = ''/graphql''"
proof -
  have i: "inject_query (Object Ordinary [(lit ''queryId'', String (lit ''greetGuest''))] Null)
             (lit ''{ greet }'')
           = Object Ordinary [(lit ''queryId'', String (lit ''greetGuest'')),
                              (lit ''query'', String (lit ''{ greet }''))] Null"
    by (simp add: inject_query_def)
  from success_injects_query [OF form_request_materialized form_request_resolved,
      of fresh_response]
  show ?thesis
    by (simp add: i) (simp add: form_request_def example_request_def)
qed

subsection \<open>C10: a query text already in the body is overwritten\<close>

text \<open>
  Claim C10: outside strict mode, when the body is an object that has a \<open>query\<close> entry
  and the resolver returns the string \<open>q\<close>, the middleware calls the continuation with
  \<open>q\<close> under \<open>query\<close> and every other entry of the body as it was.
\<close>

theorem existing_query_overwritten:
  assumes "parseRequestBodyIfNecessary P req = (Inr u, req1)"
    and "strict opts = False"
    and "isObject (body req1)"
    and "has_property (body req1) (lit ''query'')"
    and "getPersistedQuery P (queryIdKey opts) (queryMap opts) req1 False = Inr (Some q)"
  shows "persistedQueriesMiddleware P (Inr opts) req res
           = Next (req1\<lparr>body := set_property (body req1) (lit ''query'') (String q)\<rparr>) res
       \<and> get_property (set_property (body req1) (lit ''query'') (String q)) (lit ''query'')
           = String q
       \<and> (\<forall>k. k \<noteq> lit ''query'' \<longrightarrow>
             get_property (set_property (body req1) (lit ''query'') (String q)) k
               = get_property (body req1) k
             \<and> hasOwnProperty (set_property (body req1) (lit ''query'') (String q)) k
               = hasOwnProperty (body req1) k)"
  using assms
  by (simp add: persistedQueriesMiddleware_def inject_query_def get_property_set_same
      get_property_set_other hasOwnProperty_set_other)

text \<open>
  A body with a query text of its own and an operation name, and \<open>greetGuest\<close> in the
  search parameters.
\<close>

theorem existing_query_overwritten_witness:
  "persistedQueriesMiddleware example_platform (Inr greet_options) overwriting_request
     fresh_response
   = Next (overwriting_request
             \<lparr>body := object_literal [(lit ''query'', String (lit ''{ greet }'')),
                                      (lit ''operationName'', String (lit ''Greet''))]\<rparr>)
          fresh_response
   \<and> get_property (body overwriting_request) (lit ''query'') = String (lit ''{ error }'')"
proof -
  have n: "parseRequestBodyIfNecessary example_platform overwriting_request
           = (Inr (), overwriting_request)"
    by (simp add: parseRequestBodyIfNecessary_def overwriting_request_def example_request_def
        object_literal_def)
  have s: "strict greet_options = False"
    by (simp add: greet_options_def)
  have o: "isObject (body overwriting_request)"
    and h: "has_property (body overwriting_request) (lit ''query'')"
    and g: "get_property (body overwriting_request) (lit ''query'') = String (lit ''{ error }'')"
    by (simp_all add: overwriting_request_def example_request_def object_literal_def)
  have q: "getPersistedQuery example_platform (queryIdKey greet_options) (queryMap greet_options)
             overwriting_request False = Inr (Some (lit ''{ greet }''))"
    by (simp add: getPersistedQuery_def persistedQuery_of_def overwriting_request_def
        example_simps greet_options_def)
  have b: "set_property (body overwriting_request) (lit ''query'') (String (lit ''{ greet }''))
           = object_literal [(lit ''query'', String (lit ''{ greet }'')),
                             (lit ''operationName'', String (lit ''Greet''))]"
    by (simp add: overwriting_request_def example_request_def object_literal_def)
  from existing_query_overwritten [OF n s o h q, of fresh_response] g
  show ?thesis by (simp add: b)
qed

end
